theory Spec2Isabelle
  imports Complex_Main
begin

section \<open>JavaScript numbers\<close>

text \<open>
  The library computes on JavaScript numbers. A number is modelled as an exact real or one
  of the three special values of IEEE arithmetic, so that division by zero, the
  propagation of \<open>NaN\<close> and the comparisons with \<open>NaN\<close> (always false) are part of the
  model. Finite arithmetic is exact: rounding, overflow to infinity, underflow and the sign
  of zero are not modelled (a zero divisor is taken as \<open>+0\<close>). A statement that
  depends on the arithmetic of the code staying finite therefore bounds the magnitude of
  its inputs, so that no operation of the code can overflow (the largest double is just
  below \<open>2^1024\<close>), and a statement that depends on the comparison of two computed
  numbers asks for a margin between them.
\<close>

datatype jsnum = Fin real | PInf | NInf | NaN

instantiation jsnum :: "{plus, minus, uminus, times, inverse, ord}"
begin

fun uminus_jsnum :: "jsnum \<Rightarrow> jsnum" where
  "uminus_jsnum (Fin a) = Fin (- a)"
| "uminus_jsnum PInf = NInf"
| "uminus_jsnum NInf = PInf"
| "uminus_jsnum NaN = NaN"

fun plus_jsnum :: "jsnum \<Rightarrow> jsnum \<Rightarrow> jsnum" where
  "plus_jsnum (Fin a) (Fin b) = Fin (a + b)"
| "plus_jsnum NaN _ = NaN"
| "plus_jsnum _ NaN = NaN"
| "plus_jsnum PInf NInf = NaN"
| "plus_jsnum NInf PInf = NaN"
| "plus_jsnum PInf _ = PInf"
| "plus_jsnum _ PInf = PInf"
| "plus_jsnum NInf _ = NInf"
| "plus_jsnum _ NInf = NInf"

definition minus_jsnum :: "jsnum \<Rightarrow> jsnum \<Rightarrow> jsnum" where
  "minus_jsnum a b = a + (- b)"

fun times_jsnum :: "jsnum \<Rightarrow> jsnum \<Rightarrow> jsnum" where
  "times_jsnum (Fin a) (Fin b) = Fin (a * b)"
| "times_jsnum NaN _ = NaN"
| "times_jsnum _ NaN = NaN"
| "times_jsnum PInf (Fin b) = (if b = 0 then NaN else if 0 < b then PInf else NInf)"
| "times_jsnum NInf (Fin b) = (if b = 0 then NaN else if 0 < b then NInf else PInf)"
| "times_jsnum (Fin a) PInf = (if a = 0 then NaN else if 0 < a then PInf else NInf)"
| "times_jsnum (Fin a) NInf = (if a = 0 then NaN else if 0 < a then NInf else PInf)"
| "times_jsnum PInf PInf = PInf"
| "times_jsnum NInf NInf = PInf"
| "times_jsnum PInf NInf = NInf"
| "times_jsnum NInf PInf = NInf"

fun divide_jsnum :: "jsnum \<Rightarrow> jsnum \<Rightarrow> jsnum" where
  "divide_jsnum (Fin a) (Fin b) =
     (if b = 0 then (if a = 0 then NaN else if 0 < a then PInf else NInf) else Fin (a / b))"
| "divide_jsnum NaN _ = NaN"
| "divide_jsnum _ NaN = NaN"
| "divide_jsnum (Fin a) PInf = Fin 0"
| "divide_jsnum (Fin a) NInf = Fin 0"
| "divide_jsnum PInf (Fin b) = (if 0 \<le> b then PInf else NInf)"
| "divide_jsnum NInf (Fin b) = (if 0 \<le> b then NInf else PInf)"
| "divide_jsnum PInf PInf = NaN"
| "divide_jsnum PInf NInf = NaN"
| "divide_jsnum NInf PInf = NaN"
| "divide_jsnum NInf NInf = NaN"

definition inverse_jsnum :: "jsnum \<Rightarrow> jsnum" where
  "inverse_jsnum a = divide (Fin 1) a"

fun less_jsnum :: "jsnum \<Rightarrow> jsnum \<Rightarrow> bool" where
  "less_jsnum (Fin a) (Fin b) = (a < b)"
| "less_jsnum NaN _ = False"
| "less_jsnum _ NaN = False"
| "less_jsnum _ NInf = False"
| "less_jsnum PInf _ = False"
| "less_jsnum (Fin a) PInf = True"
| "less_jsnum NInf (Fin b) = True"
| "less_jsnum NInf PInf = True"

fun less_eq_jsnum :: "jsnum \<Rightarrow> jsnum \<Rightarrow> bool" where
  "less_eq_jsnum (Fin a) (Fin b) = (a \<le> b)"
| "less_eq_jsnum NaN _ = False"
| "less_eq_jsnum _ NaN = False"
| "less_eq_jsnum NInf _ = True"
| "less_eq_jsnum _ PInf = True"
| "less_eq_jsnum (Fin a) NInf = False"
| "less_eq_jsnum PInf (Fin b) = False"
| "less_eq_jsnum PInf NInf = False"

instance ..

end

text \<open>\<open>Number.isFinite\<close>, and the strict equality \<open>===\<close> that \<open>indexOf\<close> uses.\<close>

fun isFinite :: "jsnum \<Rightarrow> bool" where
  "isFinite (Fin a) = True"
| "isFinite _ = False"

definition strict_eq :: "jsnum \<Rightarrow> jsnum \<Rightarrow> bool" where
  "strict_eq a b = (a \<noteq> NaN \<and> a = b)"

text \<open>
  \<open>Math.min\<close> and \<open>Math.max\<close> take any number of arguments: \<open>NaN\<close> as soon as one
  argument is \<open>NaN\<close>, and \<open>+Infinity\<close> (\<open>-Infinity\<close>) for no argument at all.
\<close>

definition min2 :: "jsnum \<Rightarrow> jsnum \<Rightarrow> jsnum" where
  "min2 a b = (if a = NaN \<or> b = NaN then NaN else if a \<le> b then a else b)"

definition max2 :: "jsnum \<Rightarrow> jsnum \<Rightarrow> jsnum" where
  "max2 a b = (if a = NaN \<or> b = NaN then NaN else if b \<le> a then a else b)"

definition Math_min :: "jsnum list \<Rightarrow> jsnum" where
  "Math_min xs = foldl min2 PInf xs"

definition Math_max :: "jsnum list \<Rightarrow> jsnum" where
  "Math_max xs = foldl max2 NInf xs"

fun Math_sqrt :: "jsnum \<Rightarrow> jsnum" where
  "Math_sqrt (Fin a) = (if a < 0 then NaN else Fin (sqrt a))"
| "Math_sqrt PInf = PInf"
| "Math_sqrt NInf = NaN"
| "Math_sqrt NaN = NaN"

fun Math_cos :: "jsnum \<Rightarrow> jsnum" where
  "Math_cos (Fin a) = Fin (cos a)"
| "Math_cos _ = NaN"

fun Math_sin :: "jsnum \<Rightarrow> jsnum" where
  "Math_sin (Fin a) = Fin (sin a)"
| "Math_sin _ = NaN"

definition atan2_real :: "real \<Rightarrow> real \<Rightarrow> real" where
  "atan2_real y x =
     (if 0 < x then arctan (y / x)
      else if x < 0 then (if 0 \<le> y then arctan (y / x) + pi else arctan (y / x) - pi)
      else if 0 < y then pi / 2
      else if y < 0 then - pi / 2
      else 0)"

fun Math_atan2 :: "jsnum \<Rightarrow> jsnum \<Rightarrow> jsnum" where
  "Math_atan2 (Fin y) (Fin x) = Fin (atan2_real y x)"
| "Math_atan2 NaN _ = NaN"
| "Math_atan2 _ NaN = NaN"
| "Math_atan2 (Fin y) PInf = Fin 0"
| "Math_atan2 (Fin y) NInf = (if 0 \<le> y then Fin pi else Fin (- pi))"
| "Math_atan2 PInf (Fin x) = Fin (pi / 2)"
| "Math_atan2 NInf (Fin x) = Fin (- pi / 2)"
| "Math_atan2 PInf PInf = Fin (pi / 4)"
| "Math_atan2 PInf NInf = Fin (3 * pi / 4)"
| "Math_atan2 NInf PInf = Fin (- pi / 4)"
| "Math_atan2 NInf NInf = Fin (- 3 * pi / 4)"

text \<open>
  The remainder operator \<open>%\<close> truncates the quotient towards zero, so the result has the
  sign of the dividend.
\<close>

definition trunc :: "real \<Rightarrow> int" where
  "trunc x = (if 0 \<le> x then \<lfloor>x\<rfloor> else \<lceil>x\<rceil>)"

definition rem_real :: "real \<Rightarrow> real \<Rightarrow> real" where
  "rem_real n d = n - d * of_int (trunc (n / d))"

fun js_rem :: "jsnum \<Rightarrow> jsnum \<Rightarrow> jsnum" where
  "js_rem (Fin n) (Fin d) = (if d = 0 then NaN else Fin (rem_real n d))"
| "js_rem (Fin n) PInf = Fin n"
| "js_rem (Fin n) NInf = Fin n"
| "js_rem _ _ = NaN"

text \<open>
  \<open>Math.pow\<close> (and the operator \<open>**\<close>), case by case as the language standard lists
  them: a zero exponent gives 1 even for a \<open>NaN\<close> base, and a negative base needs an
  integral exponent.
\<close>

definition is_integral :: "real \<Rightarrow> bool" where
  "is_integral x = (x = of_int \<lfloor>x\<rfloor>)"

definition is_odd_integral :: "real \<Rightarrow> bool" where
  "is_odd_integral x = (is_integral x \<and> odd \<lfloor>x\<rfloor>)"

fun Math_pow :: "jsnum \<Rightarrow> jsnum \<Rightarrow> jsnum" where
  "Math_pow b NaN = NaN"
| "Math_pow b (Fin e) =
     (if e = 0 then Fin 1
      else case b of
        NaN \<Rightarrow> NaN
      | PInf \<Rightarrow> if 0 < e then PInf else Fin 0
      | NInf \<Rightarrow> if 0 < e then (if is_odd_integral e then NInf else PInf) else Fin 0
      | Fin x \<Rightarrow>
          if x = 0 then (if 0 < e then Fin 0 else PInf)
          else if 0 < x then Fin (x powr e)
          else if is_integral e then Fin (x powi \<lfloor>e\<rfloor>)
          else NaN)"
| "Math_pow b PInf =
     (case b of
        NaN \<Rightarrow> NaN
      | Fin x \<Rightarrow> if 1 < \<bar>x\<bar> then PInf else if \<bar>x\<bar> = 1 then NaN else Fin 0
      | _ \<Rightarrow> PInf)"
| "Math_pow b NInf =
     (case b of
        NaN \<Rightarrow> NaN
      | Fin x \<Rightarrow> if 1 < \<bar>x\<bar> then Fin 0 else if \<bar>x\<bar> = 1 then NaN else PInf
      | _ \<Rightarrow> Fin 0)"

section \<open>Values, arrays and errors\<close>

text \<open>
  A component of an input composition is any JavaScript value; only numbers pass the
  validity test. An input composition is an array of any length. Reading an array outside
  its bounds gives \<open>undefined\<close>.
\<close>

datatype jsval = Number jsnum | Undefined | Null | Str string

datatype error = TypeError | Error string

type_synonym TernaryPoint = "jsnum \<times> jsnum \<times> jsnum"

definition array_get :: "'a list \<Rightarrow> int \<Rightarrow> 'a option" where
  "array_get xs i = (if 0 \<le> i \<and> i < int (length xs) then Some (xs ! nat i) else None)"

definition component :: "jsval list \<Rightarrow> int \<Rightarrow> jsval" where
  "component p i = (case array_get p i of Some v \<Rightarrow> v | None \<Rightarrow> Undefined)"

fun the_number :: "jsval \<Rightarrow> jsnum" where
  "the_number (Number n) = n"
| "the_number _ = NaN"

fun indexOf_from :: "jsnum list \<Rightarrow> jsnum \<Rightarrow> int \<Rightarrow> int" where
  "indexOf_from [] v i = - 1"
| "indexOf_from (x # xs) v i = (if strict_eq x v then i else indexOf_from xs v (i + 1))"

definition indexOf :: "jsnum list \<Rightarrow> jsnum \<Rightarrow> int" where
  "indexOf xs v = indexOf_from xs v 0"

text \<open>A callback of \<open>map\<close> that throws ends the whole call: the first error wins.\<close>

fun collect :: "(error + 'a) list \<Rightarrow> error + 'a list" where
  "collect [] = Inr []"
| "collect (x # xs) =
     (case x of
        Inl e \<Rightarrow> Inl e
      | Inr v \<Rightarrow> (case collect xs of Inl e \<Rightarrow> Inl e | Inr vs \<Rightarrow> Inr (v # vs)))"

section \<open>CompositionUtils\<close>

text \<open>
  \<open>isValidTernary\<close>: an array of exactly three components, each of type number and not
  \<open>NaN\<close>. The input is an array by its type, so \<open>Array.isArray\<close> holds.
\<close>

definition isValidTernary :: "jsval list \<Rightarrow> bool" where
  "isValidTernary point =
     (length point = 3 \<and>
      list_all (\<lambda>v. case v of Number n \<Rightarrow> n \<noteq> NaN | _ \<Rightarrow> False) point)"

text \<open>
  \<open>close\<close>, \<open>perturbe\<close> and \<open>powerScale\<close> map a callback over the array; the callback
  of each is given first. \<open>None\<close> is the sentinel \<open>null\<close>. In \<open>close\<close> the components
  are read as numbers only after the validity test has passed.
\<close>

definition close_point :: "jsval list \<Rightarrow> TernaryPoint option" where
  "close_point p =
     (if \<not> isValidTernary p then None
      else
        let p0 = the_number (p ! 0); p1 = the_number (p ! 1); p2 = the_number (p ! 2);
            sum = p0 + p1 + p2
        in Some (p0 / sum, p1 / sum, p2 / sum))"

definition close :: "jsval list list \<Rightarrow> TernaryPoint option list" where
  "close P = map close_point P"

definition perturbe_point :: "TernaryPoint \<Rightarrow> TernaryPoint option \<Rightarrow> TernaryPoint option" where
  "perturbe_point c p =
     (case p of
        None \<Rightarrow> None
      | Some (p0, p1, p2) \<Rightarrow>
          (case c of (c0, c1, c2) \<Rightarrow>
            let raw = [p0 * c0, p1 * c1, p2 * c2];
                sum = foldl (+) (Fin 0) raw
            in Some (raw ! 0 / sum, raw ! 1 / sum, raw ! 2 / sum)))"

definition perturbe :: "TernaryPoint option list \<Rightarrow> TernaryPoint \<Rightarrow> TernaryPoint option list" where
  "perturbe P c = map (perturbe_point c) P"

definition powerScale_point :: "jsnum \<Rightarrow> TernaryPoint option \<Rightarrow> TernaryPoint option" where
  "powerScale_point scale p =
     (case p of
        None \<Rightarrow> None
      | Some (p0, p1, p2) \<Rightarrow>
          let raw = [Math_pow p0 scale, Math_pow p1 scale, Math_pow p2 scale];
              sum = foldl (+) (Fin 0) raw
          in Some (raw ! 0 / sum, raw ! 1 / sum, raw ! 2 / sum))"

definition powerScale :: "TernaryPoint option list \<Rightarrow> jsnum \<Rightarrow> TernaryPoint option list" where
  "powerScale P scale = map (powerScale_point scale) P"

section \<open>TernaryGeometry\<close>

text \<open>
  \<open>ternaryMeshCentroids\<close> for a finite \<open>k\<close>. The loop runs \<open>id\<close> from 1 while
  \<open>id <= K\<close>; its body is \<open>centroid_at\<close>. The body runs only when \<open>K = k * k\<close> is at
  least 1, so \<open>k\<close> is not zero, the square root has a non-negative argument and every
  value is finite: the body is written over the reals. (For \<open>k = NaN\<close> the loop body
  never runs; for an infinite \<open>k\<close> the loop does not end. The one caller in the library
  passes a finite \<open>k\<close>.)
\<close>

record TernaryCentroid =
  c_id :: int
  c_p1 :: real
  c_p2 :: real
  c_p3 :: real

definition centroid_at :: "real \<Rightarrow> real \<Rightarrow> int \<Rightarrow> TernaryCentroid" where
  "centroid_at k K i =
     (let id = real_of_int i;
          g = real_of_int \<lfloor>sqrt (K - id)\<rfloor>;
          gsq = g * g;
          c1 = (rem_real (- K + id + g * (g + 2) + 1) 2 - 3 * gsq - 3 * id + 3 * K + 1) / (6 * k);
          c2 = - (rem_real (- K + gsq + id + 2 * g + 1) 2 + 3 * g - 3 * k + 1) / (3 * k);
          c3 = (rem_real (- K + gsq + id + 2 * g + 1) 2 + 3 * gsq + 6 * g + 3 * id - 3 * K + 1)
                 / (6 * k)
      in \<lparr>c_id = i, c_p1 = c1, c_p2 = c2, c_p3 = c3\<rparr>)"

function mesh_loop :: "real \<Rightarrow> real \<Rightarrow> int \<Rightarrow> TernaryCentroid list" where
  "mesh_loop k K i =
     (if real_of_int i \<le> K then centroid_at k K i # mesh_loop k K (i + 1) else [])"
  by pat_completeness auto
termination
  by (relation "measure (\<lambda>(k, K, i). nat (\<lfloor>K\<rfloor> + 1 - i))") (auto simp: le_floor_iff)

declare mesh_loop.simps [simp del]

definition ternaryMeshCentroids :: "real \<Rightarrow> TernaryCentroid list" where
  "ternaryMeshCentroids k = mesh_loop k (k * k) 1"

definition centroid_point :: "TernaryCentroid \<Rightarrow> TernaryPoint" where
  "centroid_point c = (Fin (c_p1 c), Fin (c_p2 c), Fin (c_p3 c))"

definition distance_to :: "TernaryPoint \<Rightarrow> TernaryPoint \<Rightarrow> jsnum" where
  "distance_to p c =
     (case p of (p0, p1, p2) \<Rightarrow> case c of (c0, c1, c2) \<Rightarrow>
        let q1 = p0 - c0; q2 = p1 - c1; q3 = p2 - c2
        in - (q2 * q3 + q3 * q1 + q1 * q2))"

definition ternaryDistance :: "TernaryPoint \<Rightarrow> TernaryPoint list \<Rightarrow> jsnum list" where
  "ternaryDistance p C = map (distance_to p) C"

text \<open>
  \<open>ternaryNearest\<close>: the first candidate at the least distance. When no distance equals
  the minimum (no candidate, or a \<open>NaN\<close> distance) \<open>indexOf\<close> gives -1 and the array
  read gives \<open>undefined\<close>, which every later stage treats as the sentinel. The
  distances are compared here as exact reals. For a point at the same exact distance from
  two candidates (a point on the border of two mesh cells) the rounding of the two
  computed distances decides in the code, and may choose the later candidate; the
  statements about the chosen candidate are therefore made up to a margin, and none says
  which of two candidates at equal distance is chosen.
\<close>

definition nearest_point :: "TernaryPoint list \<Rightarrow> TernaryPoint option \<Rightarrow> TernaryPoint option" where
  "nearest_point C p =
     (case p of
        None \<Rightarrow> None
      | Some q \<Rightarrow>
          let distances = ternaryDistance q C;
              minIndex = indexOf distances (Math_min distances)
          in array_get C minIndex)"

definition ternaryNearest :: "TernaryPoint option list \<Rightarrow> TernaryPoint list \<Rightarrow> TernaryPoint option list" where
  "ternaryNearest P C = map (nearest_point C) P"

definition sextant_of :: "TernaryPoint \<Rightarrow> TernaryPoint option \<Rightarrow> int option" where
  "sextant_of center p =
     (case p of
        None \<Rightarrow> None
      | Some (p0, p1, p2) \<Rightarrow>
          (case center of (c0, c1, c2) \<Rightarrow>
            let isLarger = [c0 < p0, c1 < p1, c2 < p2] in
            if isLarger ! 0 \<and> \<not> isLarger ! 1 \<and> \<not> isLarger ! 2 then Some 1
            else if isLarger ! 0 \<and> isLarger ! 1 \<and> \<not> isLarger ! 2 then Some 2
            else if \<not> isLarger ! 0 \<and> isLarger ! 1 \<and> \<not> isLarger ! 2 then Some 3
            else if \<not> isLarger ! 0 \<and> isLarger ! 1 \<and> isLarger ! 2 then Some 4
            else if \<not> isLarger ! 0 \<and> \<not> isLarger ! 1 \<and> isLarger ! 2 then Some 5
            else if isLarger ! 0 \<and> \<not> isLarger ! 1 \<and> isLarger ! 2 then Some 6
            else None))"

definition ternarySurroundingSextant :: "TernaryPoint option list \<Rightarrow> TernaryPoint \<Rightarrow> int option list" where
  "ternarySurroundingSextant P center = map (sextant_of center) P"

definition ternaryToCartesian :: "TernaryPoint \<Rightarrow> jsnum \<times> jsnum" where
  "ternaryToCartesian p =
     (case p of (p0, p1, p2) \<Rightarrow>
        let x = Fin 0.5 * (Fin 2 * p2 + p1);
            y = (Math_sqrt (Fin 3) / Fin 2) * p1
        in (x, y))"

definition cartesianToTernary :: "jsnum \<Rightarrow> jsnum \<Rightarrow> TernaryPoint" where
  "cartesianToTernary x y =
     (let p2 = (Fin 2 * y) / Math_sqrt (Fin 3);
          p3 = x - p2 / Fin 2;
          p1 = Fin 1 - p2 - p3
      in (p1, p2, p3))"

text \<open>
  \<open>ternaryLimits\<close> updates the two arrays \<open>lower\<close> and \<open>upper\<close> once per point; the
  pair of them is the state of the loop.
\<close>

definition limits_step :: "TernaryPoint \<times> TernaryPoint \<Rightarrow> TernaryPoint \<Rightarrow> TernaryPoint \<times> TernaryPoint" where
  "limits_step s p =
     (case s of ((l0, l1, l2), (u0, u1, u2)) \<Rightarrow> case p of (p0, p1, p2) \<Rightarrow>
        ((Math_min [l0, p0], Math_min [l1, p1], Math_min [l2, p2]),
         (Math_max [u0, p0], Math_max [u1, p1], Math_max [u2, p2])))"

definition ternaryLimits :: "TernaryPoint list \<Rightarrow> TernaryPoint \<times> TernaryPoint" where
  "ternaryLimits P = foldl limits_step ((Fin 1, Fin 1, Fin 1), (Fin 0, Fin 0, Fin 0)) P"

section \<open>ColorMapping\<close>

text \<open>
  \<open>hclToHex\<close>. A channel is an integer from 0 to 255 after clamping and rounding, or
  \<open>NaN\<close> when the value that reaches it is \<open>NaN\<close> (\<open>None\<close> below), which
  \<open>toString(16)\<close> prints as the text NaN. \<open>Math.round\<close> rounds half up.
\<close>

fun hex_digits :: "nat \<Rightarrow> string" where
  "hex_digits n =
     (if n < 16 then [''0123456789abcdef'' ! n]
      else hex_digits (n div 16) @ [''0123456789abcdef'' ! (n mod 16)])"

declare hex_digits.simps [simp del]

definition clamp :: "jsnum \<Rightarrow> jsnum" where
  "clamp v = Math_max [Fin 0, Math_min [Fin 1, v]]"

definition to8bit :: "jsnum \<Rightarrow> nat option" where
  "to8bit v = (case clamp v * Fin 255 of Fin x \<Rightarrow> Some (nat \<lfloor>x + 1 / 2\<rfloor>) | _ \<Rightarrow> None)"

definition toHex :: "jsnum \<Rightarrow> string" where
  "toHex v =
     (case to8bit v of
        None \<Rightarrow> ''NaN''
      | Some n \<Rightarrow> let hex = hex_digits n in if length hex = 1 then ''0'' @ hex else hex)"

definition lab_f :: "jsnum \<Rightarrow> jsnum" where
  "lab_f t =
     (if Fin 0.206893034 < t then Math_pow t (Fin 3)
      else (t - Fin 16 / Fin 116) / Fin 7.787)"

definition gamma :: "jsnum \<Rightarrow> jsnum" where
  "gamma v =
     (if Fin 0.0031308 < v then Fin 1.055 * Math_pow v (Fin 1 / Fin 2.4) - Fin 0.055
      else Fin 12.92 * v)"

definition hclToHex :: "jsnum \<Rightarrow> jsnum \<Rightarrow> jsnum \<Rightarrow> string" where
  "hclToHex h0 c0 l0 =
     (let h1 = js_rem h0 (Fin 360);
          h = (if h1 < Fin 0 then h1 + Fin 360 else h1);
          c = Math_max [Fin 0, Math_min [c0, Fin 230]];
          l = Math_max [Fin 0, Math_min [l0, Fin 100]];
          hRad = (h * Fin pi) / Fin 180;
          a = Math_cos hRad * c;
          b' = Math_sin hRad * c;
          y = (l + Fin 16) / Fin 116;
          x = a / Fin 500 + y;
          z = y - b' / Fin 200;
          X_n = Fin 0.95047;
          Y_n = Fin 1.0;
          Z_n = Fin 1.08883;
          X = X_n * lab_f x;
          Y = Y_n * lab_f y;
          Z = Z_n * lab_f z;
          r = Fin 3.2406 * X - Fin 1.5372 * Y - Fin 0.4986 * Z;
          g = Fin (- 0.9689) * X + Fin 1.8758 * Y + Fin 0.0415 * Z;
          b = Fin 0.0557 * X - Fin 0.204 * Y + Fin 1.057 * Z
      in ''#'' @ toHex (gamma r) @ toHex (gamma g) @ toHex (gamma b))"

record TricoloreResult =
  t_p1 :: jsval
  t_p2 :: jsval
  t_p3 :: jsval
  t_h :: "jsnum option"
  t_c :: "jsnum option"
  t_l :: "jsnum option"
  t_rgb :: "string option"

record SextantResult =
  s_p1 :: jsval
  s_p2 :: jsval
  s_p3 :: jsval
  s_sextant :: "int option"
  s_rgb :: "string option"

text \<open>
  The callback that \<open>colorMapTricolore\<close> maps over the scaled compositions, for the
  element at index \<open>i\<close>: \<open>p\<close> is the scaled composition, \<open>Pi\<close> the input element
  \<open>P[i]\<close> and \<open>Pn\<close> the element \<open>P_notrans[i]\<close>. The source asserts that
  \<open>P_notrans[i]\<close> is not \<open>null\<close> without testing it; reading a component of
  \<open>null\<close> throws a \<open>TypeError\<close>.
\<close>

definition tricolore_color :: "jsnum \<Rightarrow> jsnum \<Rightarrow> jsnum \<Rightarrow> jsnum \<Rightarrow> TernaryPoint
    \<Rightarrow> jsnum \<times> jsnum \<times> jsnum \<times> string" where
  "tricolore_color hue chroma lightness contrast p =
     (case p of (p0, p1, p2) \<Rightarrow>
        let C = map (\<lambda>v. v * chroma) [p0, p1, p2];
            phi = map (\<lambda>h. (h * Fin pi) / Fin 180) [hue, hue + Fin 120, hue + Fin 240];
            Z = map (\<lambda>j. (C ! j * Math_cos (phi ! j), C ! j * Math_sin (phi ! j))) [0, 1, 2];
            z = foldl (\<lambda>sum val. (fst sum + fst val, snd sum + snd val)) (Fin 0, Fin 0) Z;
            h = js_rem ((Math_atan2 (snd z) (fst z) * Fin 180) / Fin pi + Fin 360) (Fin 360);
            c = Math_sqrt (fst z * fst z + snd z * snd z);
            cfactor = (c * contrast) / chroma + Fin 1 - contrast;
            l = cfactor * lightness;
            adjustedC = cfactor * c;
            rgb = hclToHex h adjustedC l
        in (h, adjustedC, l, rgb))"

definition tricolore_result :: "jsnum \<Rightarrow> jsnum \<Rightarrow> jsnum \<Rightarrow> jsnum \<Rightarrow> jsval list
    \<Rightarrow> TernaryPoint option \<Rightarrow> TernaryPoint option \<Rightarrow> error + TricoloreResult" where
  "tricolore_result hue chroma lightness contrast Pi Pn p =
     (case p of
        None \<Rightarrow>
          Inr \<lparr>t_p1 = component Pi 0, t_p2 = component Pi 1, t_p3 = component Pi 2,
               t_h = None, t_c = None, t_l = None, t_rgb = None\<rparr>
      | Some q \<Rightarrow>
          (case tricolore_color hue chroma lightness contrast q of (h, adjustedC, l, rgb) \<Rightarrow>
            (case Pn of
               None \<Rightarrow> Inl TypeError
             | Some (n0, n1, n2) \<Rightarrow>
                 Inr \<lparr>t_p1 = Number n0, t_p2 = Number n1, t_p3 = Number n2,
                      t_h = Some h, t_c = Some adjustedC, t_l = Some l, t_rgb = Some rgb\<rparr>)))"

text \<open>
  The compositions that reach the colour computation: closed, replaced by their nearest
  mesh centroid when \<open>breaks\<close> is finite and below 100, centred and scaled.
\<close>

definition tricolore_scaled :: "jsval list list \<Rightarrow> TernaryPoint \<Rightarrow> jsnum \<Rightarrow> jsnum
    \<Rightarrow> TernaryPoint option list" where
  "tricolore_scaled P center breaks spread =
     (let closed = close P;
          closed = (if isFinite breaks \<and> breaks < Fin 100
                    then (case breaks of
                            Fin k \<Rightarrow>
                              let centroids = map centroid_point (ternaryMeshCentroids k)
                              in ternaryNearest closed centroids
                          | _ \<Rightarrow> closed)
                    else closed);
          centered = (case center of (c0, c1, c2) \<Rightarrow>
                        perturbe closed (Fin 1 / c0, Fin 1 / c1, Fin 1 / c2));
          scaled = powerScale centered spread
      in scaled)"

definition colorMapTricolore :: "jsval list list \<Rightarrow> TernaryPoint \<Rightarrow> jsnum \<Rightarrow> jsnum \<Rightarrow> jsnum
    \<Rightarrow> jsnum \<Rightarrow> jsnum \<Rightarrow> jsnum \<Rightarrow> error + TricoloreResult list" where
  "colorMapTricolore P center breaks hue chroma lightness contrast spread =
     (let P_notrans = close P;
          scaled = tricolore_scaled P center breaks spread
      in collect (map (\<lambda>i. tricolore_result hue chroma lightness contrast
                               (P ! i) (P_notrans ! i) (scaled ! i))
                      [0..<length scaled]))"

text \<open>
  \<open>colorMapSextant\<close>: the palette is checked before anything else. The sextant id
  indexes the palette from 1.
\<close>

definition sextant_result :: "string list \<Rightarrow> jsval list \<Rightarrow> TernaryPoint option \<Rightarrow> int option
    \<Rightarrow> SextantResult" where
  "sextant_result values Pi p sextant =
     (case p of
        None \<Rightarrow>
          \<lparr>s_p1 = component Pi 0, s_p2 = component Pi 1, s_p3 = component Pi 2,
           s_sextant = None, s_rgb = None\<rparr>
      | Some (p0, p1, p2) \<Rightarrow>
          let rgb = (case sextant of Some s \<Rightarrow> array_get values (s - 1) | None \<Rightarrow> None)
          in \<lparr>s_p1 = Number p0, s_p2 = Number p1, s_p3 = Number p2,
              s_sextant = sextant, s_rgb = rgb\<rparr>)"

definition colorMapSextant :: "jsval list list \<Rightarrow> TernaryPoint \<Rightarrow> string list
    \<Rightarrow> error + SextantResult list" where
  "colorMapSextant P center values =
     (if length values \<noteq> 6
      then Inl (Error ''Sextant values array must have exactly 6 elements'')
      else
        let closed = close P;
            sextants = ternarySurroundingSextant closed center
        in Inr (map (\<lambda>i. sextant_result values (P ! i) (closed ! i) (sextants ! i))
                    [0..<length closed]))"

section \<open>Predicates used in the statements\<close>

definition no_NaN :: "TernaryPoint \<Rightarrow> bool" where
  "no_NaN p = (case p of (p0, p1, p2) \<Rightarrow> p0 \<noteq> NaN \<and> p1 \<noteq> NaN \<and> p2 \<noteq> NaN)"

definition componentwise_le :: "TernaryPoint \<Rightarrow> TernaryPoint \<Rightarrow> bool" where
  "componentwise_le l u =
     (case l of (l0, l1, l2) \<Rightarrow> case u of (u0, u1, u2) \<Rightarrow> l0 \<le> u0 \<and> l1 \<le> u1 \<and> l2 \<le> u2)"

definition sums_to_one :: "TernaryPoint \<Rightarrow> bool" where
  "sums_to_one p = (case p of (p0, p1, p2) \<Rightarrow> p0 + p1 + p2 = Fin 1)"

text \<open>
  A composition in the range where the arithmetic of the code stays finite: three finite
  components, none negative, whose sum is positive and at most \<open>2^1023\<close> (the sum of
  doubles cannot then overflow). A candidate is nearest up to the margin when no candidate
  is closer by more than \<open>1e-9\<close>, and nearest by the margin when every other candidate
  is farther by at least \<open>1e-9\<close>. The rounding of the distances in the code is many
  orders below that margin: it can decide between candidates at (nearly) equal distance,
  and cannot change a choice that is nearest by the margin.
\<close>

definition sum_bound :: real where
  "sum_bound = 2 ^ 1023"

fun bounded_composition :: "jsval list \<Rightarrow> bool" where
  "bounded_composition [Number (Fin a), Number (Fin b), Number (Fin c)] =
     (0 \<le> a \<and> 0 \<le> b \<and> 0 \<le> c \<and> 0 < a + b + c \<and> a + b + c \<le> sum_bound)"
| "bounded_composition p = False"

definition nearest_up_to_margin :: "TernaryPoint list \<Rightarrow> TernaryPoint option \<Rightarrow> TernaryPoint \<Rightarrow> bool" where
  "nearest_up_to_margin C p q =
     (case p of
        None \<Rightarrow> False
      | Some p' \<Rightarrow>
          q \<in> set C \<and>
          list_all (\<lambda>q'. distance_to p' q \<le> distance_to p' q' + Fin (1 / 10 ^ 9)) C)"

definition nearest_by_margin :: "TernaryPoint list \<Rightarrow> TernaryPoint option \<Rightarrow> TernaryPoint \<Rightarrow> bool" where
  "nearest_by_margin C p q =
     (case p of
        None \<Rightarrow> False
      | Some p' \<Rightarrow>
          q \<in> set C \<and>
          list_all (\<lambda>q'. q' = q \<or> distance_to p' q + Fin (1 / 10 ^ 9) \<le> distance_to p' q') C)"

text \<open>
  The path of one element through \<open>colorMapTricolore\<close>, stage by stage, and the four
  colour fields of a result.
\<close>

definition mesh_points :: "real \<Rightarrow> TernaryPoint list" where
  "mesh_points k = map centroid_point (ternaryMeshCentroids k)"

definition discretize_point :: "jsnum \<Rightarrow> TernaryPoint option \<Rightarrow> TernaryPoint option" where
  "discretize_point breaks p =
     (case breaks of
        Fin k \<Rightarrow> if k < 100 then nearest_point (mesh_points k) p else p
      | _ \<Rightarrow> p)"

definition centre_and_scale :: "TernaryPoint \<Rightarrow> jsnum \<Rightarrow> TernaryPoint option \<Rightarrow> TernaryPoint option" where
  "centre_and_scale center spread p =
     powerScale_point spread
       (perturbe_point (Fin 1 / fst center, Fin 1 / fst (snd center), Fin 1 / snd (snd center)) p)"

definition point_colors :: "jsnum \<Rightarrow> jsnum \<Rightarrow> jsnum \<Rightarrow> jsnum \<Rightarrow> TernaryPoint option
    \<Rightarrow> jsnum option \<times> jsnum option \<times> jsnum option \<times> string option" where
  "point_colors hue chroma lightness contrast p =
     (case p of
        None \<Rightarrow> (None, None, None, None)
      | Some q \<Rightarrow>
          (case tricolore_color hue chroma lightness contrast q of
             (h, c, l, rgb) \<Rightarrow> (Some h, Some c, Some l, Some rgb)))"

definition color_fields :: "TricoloreResult
    \<Rightarrow> jsnum option \<times> jsnum option \<times> jsnum option \<times> string option" where
  "color_fields r = (t_h r, t_c r, t_l r, t_rgb r)"

section \<open>Basic facts about the arithmetic and the stages\<close>

lemma Fin_minus [simp]: "Fin a - Fin b = Fin (a - b)"
  by (simp add: minus_jsnum_def)

lemma one_times [simp]: "Fin 1 * x = x"
  by (cases x) simp_all

lemma zero_plus [simp]: "Fin 0 + x = x"
  by (cases x) simp_all

lemma length_close [simp]: "length (close P) = length P"
  by (simp add: close_def)

lemma close_nth: "i < length P \<Longrightarrow> close P ! i = close_point (P ! i)"
  by (simp add: close_def)

lemma close_point_finite:
  "close_point [Number (Fin a), Number (Fin b), Number (Fin c)] =
     Some (Fin a / Fin (a + b + c), Fin b / Fin (a + b + c), Fin c / Fin (a + b + c))"
  by (simp add: close_point_def isValidTernary_def)

lemma sum_bound_ge: "10 \<le> sum_bound"
proof -
  have "(2::real) ^ 4 \<le> 2 ^ 1023" by (rule power_increasing) simp_all
  then show ?thesis by (simp add: sum_bound_def)
qed

section \<open>Closure\<close>

text \<open>
  Claim C5, as the code has it. The validity test of \<open>close\<close> accepts every triple of
  numbers other than \<open>NaN\<close>, so it accepts negative and infinite components and the
  triple of zeros. For an element with three finite, non-negative components whose sum
  is positive and at most \<open>2^1023\<close> (the sum of the three doubles is then finite),
  \<open>close\<close> returns the components divided by their sum: they are non-negative and sum
  to 1 (exactly over the reals, hence within \<open>1e-9\<close>).
\<close>

theorem close_on_simplex:
  assumes "i < length P"
    and "P ! i = [Number (Fin a), Number (Fin b), Number (Fin c)]"
    and "0 \<le> a" and "0 \<le> b" and "0 \<le> c" and "0 < a + b + c"
    and "a + b + c \<le> sum_bound"
  shows "\<exists>x y z. close P ! i = Some (Fin x, Fin y, Fin z) \<and>
           x = a / (a + b + c) \<and> y = b / (a + b + c) \<and> z = c / (a + b + c) \<and>
           0 \<le> x \<and> 0 \<le> y \<and> 0 \<le> z \<and> x + y + z = 1 \<and> \<bar>x + y + z - 1\<bar> \<le> 1 / 10 ^ 9"
proof -
  let ?s = "a + b + c"
  have s: "?s \<noteq> 0" using assms(6) by simp
  have cl: "close P ! i = Some (Fin (a / ?s), Fin (b / ?s), Fin (c / ?s))"
    using assms(1,2) s by (simp add: close_nth close_point_finite)
  have sum: "a / ?s + b / ?s + c / ?s = 1"
    using s by (simp add: add_divide_distrib [symmetric])
  have nn: "0 \<le> a / ?s" "0 \<le> b / ?s" "0 \<le> c / ?s"
    using assms(3-6) by simp_all
  show ?thesis using cl sum nn by simp
qed

theorem close_on_simplex_witness:
  "(0::nat) < length [[Number (Fin 2), Number (Fin 1), Number (Fin 1)]] \<and>
   (2::real) + 1 + 1 \<le> sum_bound \<and>
   (\<exists>x y z. close [[Number (Fin 2), Number (Fin 1), Number (Fin 1)]] ! 0
               = Some (Fin x, Fin y, Fin z) \<and>
      x = 2 / (2 + 1 + 1) \<and> y = 1 / (2 + 1 + 1) \<and> z = 1 / (2 + 1 + 1) \<and>
      0 \<le> x \<and> 0 \<le> y \<and> 0 \<le> z \<and> x + y + z = 1 \<and> \<bar>x + y + z - 1\<bar> \<le> 1 / 10 ^ 9)"
  using close_on_simplex [of 0 "[[Number (Fin 2), Number (Fin 1), Number (Fin 1)]]" 2 1 1]
    sum_bound_ge
  by simp

text \<open>
  Three triples that pass the validity test and whose closure is not a point of the
  simplex: the zeros close to \<open>NaN\<close>, a negative component stays negative, and an
  infinite component closes to \<open>NaN\<close>.
\<close>

theorem close_valid_counterexample:
  "isValidTernary [Number (Fin 0), Number (Fin 0), Number (Fin 0)] \<and>
   close [[Number (Fin 0), Number (Fin 0), Number (Fin 0)]] = [Some (NaN, NaN, NaN)] \<and>
   \<not> Fin 0 \<le> NaN \<and>
   isValidTernary [Number (Fin 2), Number (Fin (- 1)), Number (Fin 0)] \<and>
   close [[Number (Fin 2), Number (Fin (- 1)), Number (Fin 0)]]
     = [Some (Fin 2, Fin (- 1), Fin 0)] \<and>
   \<not> Fin 0 \<le> Fin (- 1) \<and>
   isValidTernary [Number PInf, Number (Fin 1), Number (Fin 1)] \<and>
   close [[Number PInf, Number (Fin 1), Number (Fin 1)]] = [Some (NaN, Fin 0, Fin 0)]"
  by (simp add: close_def close_point_def isValidTernary_def)

section \<open>Sextant classification\<close>

text \<open>
  The comparison \<open>p[i] > center[i]\<close> is false when either side is \<open>NaN\<close>; for all
  other numbers "not greater" is the same as "less than or equal".
\<close>

lemma not_less_iff_le: "a \<noteq> NaN \<Longrightarrow> b \<noteq> NaN \<Longrightarrow> (\<not> b < a) = (a \<le> b)"
  by (cases a; cases b) auto

lemma less_irrefl_jsnum [simp]: "\<not> (a::jsnum) < a"
  by (cases a) simp_all

lemma sextant_nth:
  "i < length P \<Longrightarrow> ternarySurroundingSextant P c ! i = sextant_of c (P ! i)"
  by (simp add: ternarySurroundingSextant_def)

lemma sextant_of_range: "sextant_of c p = Some s \<Longrightarrow> 1 \<le> s \<and> s \<le> 6"
  by (auto simp: sextant_of_def Let_def split: option.splits prod.splits if_splits)

lemma sextant_of_None [simp]: "sextant_of c None = None"
  by (simp add: sextant_of_def)

text \<open>
  Claim C2. For a point that is not the sentinel, each component is compared strictly
  with the component of the centre, and the six patterns of "greater" and "not greater"
  are mapped to the ids 1 to 6 in the order of the claim. The two remaining patterns
  (all three greater, none greater) give the sentinel; a point equal to the centre has
  no greater component and so gives the sentinel.
\<close>

theorem sextant_classification:
  assumes "i < length P" and "P ! i = Some (p0, p1, p2)"
  shows "(c0 < p0 \<and> \<not> c1 < p1 \<and> \<not> c2 < p2 \<longrightarrow>
            ternarySurroundingSextant P (c0, c1, c2) ! i = Some 1) \<and>
         (c0 < p0 \<and> c1 < p1 \<and> \<not> c2 < p2 \<longrightarrow>
            ternarySurroundingSextant P (c0, c1, c2) ! i = Some 2) \<and>
         (\<not> c0 < p0 \<and> c1 < p1 \<and> \<not> c2 < p2 \<longrightarrow>
            ternarySurroundingSextant P (c0, c1, c2) ! i = Some 3) \<and>
         (\<not> c0 < p0 \<and> c1 < p1 \<and> c2 < p2 \<longrightarrow>
            ternarySurroundingSextant P (c0, c1, c2) ! i = Some 4) \<and>
         (\<not> c0 < p0 \<and> \<not> c1 < p1 \<and> c2 < p2 \<longrightarrow>
            ternarySurroundingSextant P (c0, c1, c2) ! i = Some 5) \<and>
         (c0 < p0 \<and> \<not> c1 < p1 \<and> c2 < p2 \<longrightarrow>
            ternarySurroundingSextant P (c0, c1, c2) ! i = Some 6) \<and>
         (c0 < p0 \<and> c1 < p1 \<and> c2 < p2 \<longrightarrow>
            ternarySurroundingSextant P (c0, c1, c2) ! i = None) \<and>
         (\<not> c0 < p0 \<and> \<not> c1 < p1 \<and> \<not> c2 < p2 \<longrightarrow>
            ternarySurroundingSextant P (c0, c1, c2) ! i = None) \<and>
         ((p0, p1, p2) = (c0, c1, c2) \<longrightarrow>
            ternarySurroundingSextant P (c0, c1, c2) ! i = None)"
  using assms by (simp add: sextant_nth sextant_of_def)

theorem sextant_classification_witness:
  "ternarySurroundingSextant [Some (Fin 1, Fin 0, Fin 0)]
     (Fin (1 / 3), Fin (1 / 3), Fin (1 / 3)) ! 0 = Some 1 \<and>
   ternarySurroundingSextant [Some (Fin 0, Fin 1, Fin 0)]
     (Fin (1 / 3), Fin (1 / 3), Fin (1 / 3)) ! 0 = Some 3 \<and>
   ternarySurroundingSextant [Some (Fin 0, Fin 0, Fin 1)]
     (Fin (1 / 3), Fin (1 / 3), Fin (1 / 3)) ! 0 = Some 5 \<and>
   ternarySurroundingSextant [Some (Fin (1 / 3), Fin (1 / 3), Fin (1 / 3))]
     (Fin (1 / 3), Fin (1 / 3), Fin (1 / 3)) ! 0 = None"
  using
    sextant_classification [of 0 "[Some (Fin 1, Fin 0, Fin 0)]" "Fin 1" "Fin 0" "Fin 0"
      "Fin (1 / 3)" "Fin (1 / 3)" "Fin (1 / 3)"]
    sextant_classification [of 0 "[Some (Fin 0, Fin 1, Fin 0)]" "Fin 0" "Fin 1" "Fin 0"
      "Fin (1 / 3)" "Fin (1 / 3)" "Fin (1 / 3)"]
    sextant_classification [of 0 "[Some (Fin 0, Fin 0, Fin 1)]" "Fin 0" "Fin 0" "Fin 1"
      "Fin (1 / 3)" "Fin (1 / 3)" "Fin (1 / 3)"]
    sextant_classification [of 0 "[Some (Fin (1 / 3), Fin (1 / 3), Fin (1 / 3))]"
      "Fin (1 / 3)" "Fin (1 / 3)" "Fin (1 / 3)" "Fin (1 / 3)" "Fin (1 / 3)" "Fin (1 / 3)"]
  by simp

section \<open>Cartesian projection\<close>

lemma sum_one_finite:
  assumes "p0 + p1 + p2 = Fin 1"
  obtains a b c where "p0 = Fin a" "p1 = Fin b" "p2 = Fin c" "a + b + c = 1"
  using assms by (cases p0; cases p1; cases p2) auto

text \<open>
  Claim C6. For every point whose components sum to 1 (they are then finite),
  \<open>cartesianToTernary\<close> applied to the two coordinates of \<open>ternaryToCartesian\<close>
  gives the point back, exactly over the reals.
\<close>

theorem cartesian_round_trip:
  assumes "p0 + p1 + p2 = Fin 1"
  shows "cartesianToTernary (fst (ternaryToCartesian (p0, p1, p2)))
           (snd (ternaryToCartesian (p0, p1, p2))) = (p0, p1, p2)"
proof -
  from assms obtain a b c where p: "p0 = Fin a" "p1 = Fin b" "p2 = Fin c" and s: "a + b + c = 1"
    by (rule sum_one_finite)
  have a: "a = 1 - b - c" using s by simp
  show ?thesis
    by (simp add: p ternaryToCartesian_def cartesianToTernary_def Let_def a field_simps)
qed

theorem cartesian_round_trip_witness:
  "Fin (1 / 2) + Fin (3 / 10) + Fin (1 / 5) = Fin 1 \<and>
   cartesianToTernary (fst (ternaryToCartesian (Fin (1 / 2), Fin (3 / 10), Fin (1 / 5))))
     (snd (ternaryToCartesian (Fin (1 / 2), Fin (3 / 10), Fin (1 / 5))))
   = (Fin (1 / 2), Fin (3 / 10), Fin (1 / 5))"
proof -
  have h: "Fin (1 / 2) + Fin (3 / 10) + Fin (1 / 5) = Fin 1" by simp
  show ?thesis using h cartesian_round_trip [OF h] by simp
qed

section \<open>The sextant colour map\<close>

lemma sextant_result_fields:
  "s_sextant (sextant_result values Pi p (sextant_of c p)) = sextant_of c p"
  "s_rgb (sextant_result values Pi p (sextant_of c p)) =
     (case sextant_of c p of Some s \<Rightarrow> array_get values (s - 1) | None \<Rightarrow> None)"
  by (auto simp: sextant_result_def split: option.splits prod.splits)

lemma array_get_in_range:
  "0 \<le> i \<Longrightarrow> i < int (length xs) \<Longrightarrow> array_get xs i = Some (xs ! nat i)"
  by (simp add: array_get_def)

lemma colorMapSextant_error:
  "length values \<noteq> 6 \<Longrightarrow>
     colorMapSextant P center values
       = Inl (Error ''Sextant values array must have exactly 6 elements'')"
  by (simp add: colorMapSextant_def)

lemma colorMapSextant_ok:
  "length values = 6 \<Longrightarrow>
     colorMapSextant P center values
       = Inr (map (\<lambda>i. sextant_result values (P ! i) (close P ! i)
                          (sextant_of center (close P ! i))) [0..<length P])"
  by (simp add: colorMapSextant_def Let_def sextant_nth)

text \<open>
  Claim C8. \<open>colorMapSextant\<close> throws exactly when the palette does not have six
  entries, whatever the points are. With six entries it returns one result per point;
  the sextant field is the classification of the closed point, a point in sextant \<open>s\<close>
  (which is between 1 and 6) gets the palette entry at index \<open>s - 1\<close>, and a point
  with no sextant gets no colour.
\<close>

theorem colorMapSextant_palette:
  "((\<exists>e. colorMapSextant P center values = Inl e) = (length values \<noteq> 6)) \<and>
   (length values \<noteq> 6 \<longrightarrow>
      colorMapSextant P center values
        = Inl (Error ''Sextant values array must have exactly 6 elements'')) \<and>
   (length values = 6 \<longrightarrow>
      (\<exists>rs. colorMapSextant P center values = Inr rs \<and> length rs = length P \<and>
         (\<forall>i<length P.
            s_sextant (rs ! i) = ternarySurroundingSextant (close P) center ! i \<and>
            (\<forall>s. s_sextant (rs ! i) = Some s \<longrightarrow>
                   1 \<le> s \<and> s \<le> 6 \<and> s_rgb (rs ! i) = Some (values ! nat (s - 1))) \<and>
            (s_sextant (rs ! i) = None \<longrightarrow> s_rgb (rs ! i) = None))))"
proof (intro conjI impI)
  show "(\<exists>e. colorMapSextant P center values = Inl e) = (length values \<noteq> 6)"
    by (cases "length values = 6") (simp_all add: colorMapSextant_ok colorMapSextant_error)
next
  assume "length values \<noteq> 6"
  then show "colorMapSextant P center values
        = Inl (Error ''Sextant values array must have exactly 6 elements'')"
    by (rule colorMapSextant_error)
next
  assume len: "length values = 6"
  let ?rs = "map (\<lambda>i. sextant_result values (P ! i) (close P ! i)
                          (sextant_of center (close P ! i))) [0..<length P]"
  have "\<forall>i<length P.
            s_sextant (?rs ! i) = ternarySurroundingSextant (close P) center ! i \<and>
            (\<forall>s. s_sextant (?rs ! i) = Some s \<longrightarrow>
                   1 \<le> s \<and> s \<le> 6 \<and> s_rgb (?rs ! i) = Some (values ! nat (s - 1))) \<and>
            (s_sextant (?rs ! i) = None \<longrightarrow> s_rgb (?rs ! i) = None)"
  proof (intro allI impI)
    fix i assume i: "i < length P"
    let ?p = "close P ! i"
    have r: "?rs ! i = sextant_result values (P ! i) ?p (sextant_of center ?p)"
      using i by simp
    have f1: "s_sextant (?rs ! i) = sextant_of center ?p"
      by (simp only: r sextant_result_fields)
    have f2: "s_rgb (?rs ! i)
        = (case sextant_of center ?p of Some s \<Rightarrow> array_get values (s - 1) | None \<Rightarrow> None)"
      by (simp only: r sextant_result_fields)
    have a: "s_sextant (?rs ! i) = ternarySurroundingSextant (close P) center ! i"
      using i by (simp only: f1 sextant_nth length_close)
    have b: "1 \<le> s \<and> s \<le> 6 \<and> s_rgb (?rs ! i) = Some (values ! nat (s - 1))"
      if "s_sextant (?rs ! i) = Some s" for s
    proof -
      from that have s: "sextant_of center ?p = Some s"
        by (simp add: f1)
      then have rng: "1 \<le> s \<and> s \<le> 6" by (rule sextant_of_range)
      then have "array_get values (s - 1) = Some (values ! nat (s - 1))"
        using len by (intro array_get_in_range) simp_all
      then show ?thesis using rng s by (simp add: f2)
    qed
    have c: "s_rgb (?rs ! i) = None" if "s_sextant (?rs ! i) = None"
      using that by (simp add: f1 f2)
    show "s_sextant (?rs ! i) = ternarySurroundingSextant (close P) center ! i \<and>
            (\<forall>s. s_sextant (?rs ! i) = Some s \<longrightarrow>
                   1 \<le> s \<and> s \<le> 6 \<and> s_rgb (?rs ! i) = Some (values ! nat (s - 1))) \<and>
            (s_sextant (?rs ! i) = None \<longrightarrow> s_rgb (?rs ! i) = None)"
      using a b c by blast
  qed
  then show "\<exists>rs. colorMapSextant P center values = Inr rs \<and> length rs = length P \<and>
         (\<forall>i<length P.
            s_sextant (rs ! i) = ternarySurroundingSextant (close P) center ! i \<and>
            (\<forall>s. s_sextant (rs ! i) = Some s \<longrightarrow>
                   1 \<le> s \<and> s \<le> 6 \<and> s_rgb (rs ! i) = Some (values ! nat (s - 1))) \<and>
            (s_sextant (rs ! i) = None \<longrightarrow> s_rgb (rs ! i) = None))"
    using colorMapSextant_ok [OF len, of P center] by (intro exI [of _ ?rs]) simp
qed

lemma sextant_example:
  "ternarySurroundingSextant (close [[Number (Fin 0.5), Number (Fin 0.3), Number (Fin 0.2)]])
     (Fin (1 / 3), Fin (1 / 3), Fin (1 / 3)) ! 0 = Some 1"
  by (simp add: ternarySurroundingSextant_def close_def close_point_def isValidTernary_def
      sextant_of_def)

theorem colorMapSextant_palette_witness:
  "length [''#FFFF00'', ''#B3DCC3'', ''#01A0C6'', ''#B8B3D8'', ''#F11D8C''] \<noteq> 6 \<and>
   colorMapSextant [[Number (Fin 0.5), Number (Fin 0.3), Number (Fin 0.2)]]
      (Fin (1 / 3), Fin (1 / 3), Fin (1 / 3))
      [''#FFFF00'', ''#B3DCC3'', ''#01A0C6'', ''#B8B3D8'', ''#F11D8C'']
     = Inl (Error ''Sextant values array must have exactly 6 elements'') \<and>
   length [''#FFFF00'', ''#B3DCC3'', ''#01A0C6'', ''#B8B3D8'', ''#F11D8C'', ''#FFB3B3''] = 6 \<and>
   (\<exists>rs. colorMapSextant [[Number (Fin 0.5), Number (Fin 0.3), Number (Fin 0.2)]]
      (Fin (1 / 3), Fin (1 / 3), Fin (1 / 3))
      [''#FFFF00'', ''#B3DCC3'', ''#01A0C6'', ''#B8B3D8'', ''#F11D8C'', ''#FFB3B3''] = Inr rs \<and>
      s_sextant (rs ! 0) = Some 1 \<and> s_rgb (rs ! 0) = Some ''#FFFF00'')"
  using colorMapSextant_palette [of "[[Number (Fin 0.5), Number (Fin 0.3), Number (Fin 0.2)]]"
      "(Fin (1 / 3), Fin (1 / 3), Fin (1 / 3))"
      "[''#FFFF00'', ''#B3DCC3'', ''#01A0C6'', ''#B8B3D8'', ''#F11D8C'']"]
    colorMapSextant_palette [of "[[Number (Fin 0.5), Number (Fin 0.3), Number (Fin 0.2)]]"
      "(Fin (1 / 3), Fin (1 / 3), Fin (1 / 3))"
      "[''#FFFF00'', ''#B3DCC3'', ''#01A0C6'', ''#B8B3D8'', ''#F11D8C'', ''#FFB3B3'']"]
    sextant_example
  by auto

section \<open>Limits\<close>

lemma Math_min_pair [simp]: "Math_min [a, b] = min2 a b"
  by (cases a) (simp_all add: Math_min_def min2_def)

lemma Math_max_pair [simp]: "Math_max [a, b] = max2 a b"
  by (cases a) (simp_all add: Math_max_def max2_def)

lemma min2_not_NaN: "a \<noteq> NaN \<Longrightarrow> b \<noteq> NaN \<Longrightarrow> min2 a b \<noteq> NaN"
  by (simp add: min2_def)

lemma max2_not_NaN: "a \<noteq> NaN \<Longrightarrow> b \<noteq> NaN \<Longrightarrow> max2 a b \<noteq> NaN"
  by (simp add: max2_def)

lemma min2_le_max2:
  "l \<noteq> NaN \<Longrightarrow> u \<noteq> NaN \<Longrightarrow> p \<noteq> NaN \<Longrightarrow> min2 l p \<le> max2 u p"
  by (cases l; cases u; cases p) (auto simp: min2_def max2_def)

lemma limits_step_no_NaN:
  "no_NaN (fst s) \<Longrightarrow> no_NaN (snd s) \<Longrightarrow> no_NaN p \<Longrightarrow>
     no_NaN (fst (limits_step s p)) \<and> no_NaN (snd (limits_step s p))"
  by (auto simp: no_NaN_def limits_step_def min2_not_NaN max2_not_NaN split: prod.splits)

lemma limits_step_le:
  "no_NaN (fst s) \<Longrightarrow> no_NaN (snd s) \<Longrightarrow> no_NaN p \<Longrightarrow>
     componentwise_le (fst (limits_step s p)) (snd (limits_step s p))"
  by (auto simp: no_NaN_def componentwise_le_def limits_step_def min2_le_max2 split: prod.splits)

lemma limits_fold_no_NaN:
  "no_NaN (fst s) \<Longrightarrow> no_NaN (snd s) \<Longrightarrow> \<forall>p\<in>set P. no_NaN p \<Longrightarrow>
     no_NaN (fst (foldl limits_step s P)) \<and> no_NaN (snd (foldl limits_step s P))"
proof (induction P arbitrary: s)
  case Nil
  then show ?case by simp
next
  case (Cons p P)
  have "no_NaN (fst (limits_step s p)) \<and> no_NaN (snd (limits_step s p))"
    using Cons.prems by (intro limits_step_no_NaN) simp_all
  then show ?case using Cons.IH [of "limits_step s p"] Cons.prems by simp
qed

text \<open>
  Claim C10, as the code has it. For the empty array \<open>ternaryLimits\<close> returns the
  initial values, lower \<open>[1, 1, 1]\<close> above upper \<open>[0, 0, 0]\<close>. For a non-empty array
  in which no component is \<open>NaN\<close>, every lower component is at most the upper one.
  (\<open>Math.min\<close> and \<open>Math.max\<close> return \<open>NaN\<close> for a \<open>NaN\<close> argument, and
  \<open>NaN <= NaN\<close> is false.)
\<close>

theorem ternaryLimits_bounds:
  "ternaryLimits [] = ((Fin 1, Fin 1, Fin 1), (Fin 0, Fin 0, Fin 0)) \<and>
   Fin 0 < Fin 1 \<and>
   (P \<noteq> [] \<and> (\<forall>p\<in>set P. no_NaN p) \<longrightarrow>
      componentwise_le (fst (ternaryLimits P)) (snd (ternaryLimits P)))"
proof (intro conjI impI)
  show "ternaryLimits [] = ((Fin 1, Fin 1, Fin 1), (Fin 0, Fin 0, Fin 0))"
    by (simp add: ternaryLimits_def)
  show "Fin 0 < Fin 1" by simp
next
  assume a: "P \<noteq> [] \<and> (\<forall>p\<in>set P. no_NaN p)"
  let ?s0 = "((Fin 1, Fin 1, Fin 1), (Fin 0, Fin 0, Fin 0))"
  from a obtain xs x where P: "P = xs @ [x]"
    by (metis rev_exhaust)
  have x: "no_NaN x" and xs: "\<forall>p\<in>set xs. no_NaN p" using a P by simp_all
  have inv: "no_NaN (fst (foldl limits_step ?s0 xs)) \<and> no_NaN (snd (foldl limits_step ?s0 xs))"
    using xs by (intro limits_fold_no_NaN) (simp_all add: no_NaN_def)
  have "ternaryLimits P = limits_step (foldl limits_step ?s0 xs) x"
    by (simp add: ternaryLimits_def P)
  then show "componentwise_le (fst (ternaryLimits P)) (snd (ternaryLimits P))"
    using limits_step_le [of "foldl limits_step ?s0 xs" x] inv x by simp
qed

theorem ternaryLimits_bounds_witness:
  "[(Fin 0.5, Fin 0.3, Fin 0.2), (Fin 0.1, Fin 0.1, Fin 0.8)] \<noteq> [] \<and>
   no_NaN (Fin 0.5, Fin 0.3, Fin 0.2) \<and> no_NaN (Fin 0.1, Fin 0.1, Fin 0.8) \<and>
   componentwise_le (fst (ternaryLimits [(Fin 0.5, Fin 0.3, Fin 0.2), (Fin 0.1, Fin 0.1, Fin 0.8)]))
     (snd (ternaryLimits [(Fin 0.5, Fin 0.3, Fin 0.2), (Fin 0.1, Fin 0.1, Fin 0.8)]))"
  using ternaryLimits_bounds [of "[(Fin 0.5, Fin 0.3, Fin 0.2), (Fin 0.1, Fin 0.1, Fin 0.8)]"]
  by (simp add: no_NaN_def)

text \<open>A non-empty array with a \<open>NaN\<close> component: both limits are \<open>NaN\<close> there.\<close>

theorem ternaryLimits_NaN_counterexample:
  "[(NaN, Fin 0.5, Fin 0.5)] \<noteq> [] \<and>
   ternaryLimits [(NaN, Fin 0.5, Fin 0.5)] = ((NaN, Fin 0.5, Fin 0.5), (NaN, Fin 0.5, Fin 0.5)) \<and>
   \<not> NaN \<le> NaN"
  by (simp add: ternaryLimits_def limits_step_def min2_def max2_def)

section \<open>The tricolore colour map, element by element\<close>

lemma collect_all_Inr:
  "\<forall>x\<in>set xs. \<exists>v. x = Inr v \<Longrightarrow>
     \<exists>vs. collect xs = Inr vs \<and> length vs = length xs \<and> (\<forall>i<length xs. xs ! i = Inr (vs ! i))"
proof (induction xs)
  case Nil
  then show ?case by simp
next
  case (Cons x xs)
  from Cons.prems obtain v where v: "x = Inr v" by auto
  from Cons obtain vs where vs: "collect xs = Inr vs" "length vs = length xs"
    "\<forall>i<length xs. xs ! i = Inr (vs ! i)" by auto
  have "\<forall>i<length (x # xs). (x # xs) ! i = Inr ((v # vs) ! i)"
    using v vs(3) by (auto simp: nth_Cons split: nat.splits)
  then show ?case using v vs(1,2) by (intro exI [of _ "v # vs"]) simp
qed

lemma perturbe_point_None [simp]: "perturbe_point c None = None"
  by (simp add: perturbe_point_def)

lemma powerScale_point_None [simp]: "powerScale_point s None = None"
  by (simp add: powerScale_point_def)

lemma nearest_point_None [simp]: "nearest_point C None = None"
  by (simp add: nearest_point_def)

lemma discretize_point_None [simp]: "discretize_point breaks None = None"
  by (simp add: discretize_point_def split: jsnum.splits)

lemma centre_and_scale_None [simp]: "centre_and_scale center spread None = None"
  by (simp add: centre_and_scale_def)

lemma discretize_point_cases:
  "discretize_point breaks p =
     (if isFinite breaks \<and> breaks < Fin 100
      then (case breaks of Fin k \<Rightarrow> nearest_point (mesh_points k) p | _ \<Rightarrow> p)
      else p)"
  by (cases breaks) (simp_all add: discretize_point_def)

lemma tricolore_scaled_eq:
  "tricolore_scaled P center breaks spread =
     map (\<lambda>p. centre_and_scale center spread (discretize_point breaks (close_point p))) P"
  by (cases breaks; cases center)
     (simp_all add: tricolore_scaled_def Let_def close_def ternaryNearest_def perturbe_def
        powerScale_def centre_and_scale_def discretize_point_def mesh_points_def)

lemma tricolore_scaled_length [simp]:
  "length (tricolore_scaled P center breaks spread) = length P"
  by (simp add: tricolore_scaled_eq)

lemma tricolore_scaled_nth:
  "i < length P \<Longrightarrow>
     tricolore_scaled P center breaks spread ! i
       = centre_and_scale center spread (discretize_point breaks (close_point (P ! i)))"
  by (simp add: tricolore_scaled_eq)

lemma scaled_Some_closed:
  "centre_and_scale center spread (discretize_point breaks p) = Some q \<Longrightarrow> p \<noteq> None"
  by (cases p) simp_all

lemma tricolore_result_total:
  "p = None \<or> Pn \<noteq> None \<Longrightarrow>
     \<exists>r. tricolore_result hue chroma lightness contrast Pi Pn p = Inr r"
  by (auto simp: tricolore_result_def split: option.splits prod.splits)

lemma colorMapTricolore_elements:
  "\<exists>rs. colorMapTricolore P center breaks hue chroma lightness contrast spread = Inr rs \<and>
        length rs = length P \<and>
        (\<forall>i<length P.
           tricolore_result hue chroma lightness contrast (P ! i) (close_point (P ! i))
             (centre_and_scale center spread (discretize_point breaks (close_point (P ! i))))
           = Inr (rs ! i))"
proof -
  let ?f = "\<lambda>i. tricolore_result hue chroma lightness contrast (P ! i) (close P ! i)
                    (tricolore_scaled P center breaks spread ! i)"
  let ?xs = "map ?f [0..<length P]"
  have "\<forall>x\<in>set ?xs. \<exists>v. x = Inr v"
  proof
    fix x assume "x \<in> set ?xs"
    then obtain i where i: "i < length P" and x: "x = ?f i" by auto
    have "tricolore_scaled P center breaks spread ! i = None \<or> close P ! i \<noteq> None"
      using i by (cases "close_point (P ! i)") (simp_all add: tricolore_scaled_nth close_nth)
    then show "\<exists>v. x = Inr v" unfolding x by (rule tricolore_result_total)
  qed
  then obtain vs where vs: "collect ?xs = Inr vs" "length vs = length ?xs"
    "\<forall>i<length ?xs. ?xs ! i = Inr (vs ! i)"
    using collect_all_Inr [of ?xs] by blast
  have "colorMapTricolore P center breaks hue chroma lightness contrast spread = Inr vs"
    using vs(1) by (simp add: colorMapTricolore_def Let_def)
  moreover have "length vs = length P" using vs(2) by simp
  moreover have "\<forall>i<length P.
           tricolore_result hue chroma lightness contrast (P ! i) (close_point (P ! i))
             (centre_and_scale center spread (discretize_point breaks (close_point (P ! i))))
           = Inr (vs ! i)"
    using vs(3) by (simp add: tricolore_scaled_nth close_nth)
  ultimately show ?thesis by blast
qed

lemma tricolore_result_colors:
  "tricolore_result hue chroma lightness contrast Pi Pn p = Inr r \<Longrightarrow>
     color_fields r = point_colors hue chroma lightness contrast p"
  by (auto simp: tricolore_result_def color_fields_def point_colors_def
      split: option.splits prod.splits)

lemma tricolore_result_components:
  "tricolore_result hue chroma lightness contrast Pi Pn p = Inr r \<Longrightarrow>
     (t_p1 r, t_p2 r, t_p3 r) =
       (case p of
          None \<Rightarrow> (component Pi 0, component Pi 1, component Pi 2)
        | Some q \<Rightarrow> (case Pn of
                       Some (n0, n1, n2) \<Rightarrow> (Number n0, Number n1, Number n2)
                     | None \<Rightarrow> (Undefined, Undefined, Undefined)))"
  by (auto simp: tricolore_result_def split: option.splits prod.splits)

lemma perturbe_point_Some: "\<exists>q. perturbe_point c (Some p) = Some q"
  by (cases p; cases c) (simp add: perturbe_point_def Let_def)

lemma powerScale_point_Some: "\<exists>q. powerScale_point s (Some p) = Some q"
  by (cases p) (simp add: powerScale_point_def Let_def)

lemma centre_and_scale_Some: "\<exists>q. centre_and_scale center spread (Some p) = Some q"
proof -
  obtain q where "perturbe_point (Fin 1 / fst center, Fin 1 / fst (snd center),
      Fin 1 / snd (snd center)) (Some p) = Some q"
    using perturbe_point_Some by blast
  then show ?thesis
    using powerScale_point_Some [of spread q] by (simp add: centre_and_scale_def)
qed

lemma discretize_point_continuous:
  "\<not> (isFinite breaks \<and> breaks < Fin 100) \<Longrightarrow> discretize_point breaks p = p"
  by (cases breaks) (simp_all add: discretize_point_def)

lemma discretize_point_discrete:
  "k < 100 \<Longrightarrow> discretize_point (Fin k) p = nearest_point (mesh_points k) p"
  by (simp add: discretize_point_def)

lemma close_point_None_iff: "close_point p = None \<longleftrightarrow> \<not> isValidTernary p"
  by (simp add: close_point_def Let_def)

lemma isValidTernary_iff:
  "isValidTernary p \<longleftrightarrow>
     (\<exists>a b c. p = [Number a, Number b, Number c] \<and> a \<noteq> NaN \<and> b \<noteq> NaN \<and> c \<noteq> NaN)"
proof
  assume v: "isValidTernary p"
  then have "length p = 3" by (simp add: isValidTernary_def)
  then obtain x y z where p: "p = [x, y, z]"
    by (cases p; simp; rename_tac a l; case_tac l; simp; rename_tac b m; case_tac m; simp)
  show "\<exists>a b c. p = [Number a, Number b, Number c] \<and> a \<noteq> NaN \<and> b \<noteq> NaN \<and> c \<noteq> NaN"
    using v unfolding p by (cases x; cases y; cases z) (simp_all add: isValidTernary_def)
next
  assume "\<exists>a b c. p = [Number a, Number b, Number c] \<and> a \<noteq> NaN \<and> b \<noteq> NaN \<and> c \<noteq> NaN"
  then show "isValidTernary p" by (auto simp: isValidTernary_def)
qed

lemma close_point_numbers:
  "a \<noteq> NaN \<Longrightarrow> b \<noteq> NaN \<Longrightarrow> c \<noteq> NaN \<Longrightarrow>
     close_point [Number a, Number b, Number c]
       = Some (a / (a + b + c), b / (a + b + c), c / (a + b + c))"
  by (simp add: close_point_def isValidTernary_def Let_def)

lemma point_colors_None_iff:
  "point_colors hue chroma lightness contrast p = (None, None, None, None) \<longleftrightarrow> p = None"
  by (auto simp: point_colors_def split: option.splits prod.splits)

lemma tricolore_result_rgb_None:
  "tricolore_result hue chroma lightness contrast Pi Pn p = Inr r \<Longrightarrow>
     (t_rgb r = None) = (p = None)"
  by (auto simp: tricolore_result_def split: option.splits prod.splits)

lemma colorMapTricolore_single:
  assumes "colorMapTricolore P center breaks hue chroma lightness contrast spread = Inr rs"
    and "i < length P"
  shows "colorMapTricolore [P ! i] center breaks hue chroma lightness contrast spread
           = Inr [rs ! i]"
proof -
  obtain rs' where rs': "colorMapTricolore P center breaks hue chroma lightness contrast spread
        = Inr rs'"
    "\<forall>i<length P.
       tricolore_result hue chroma lightness contrast (P ! i) (close_point (P ! i))
         (centre_and_scale center spread (discretize_point breaks (close_point (P ! i))))
       = Inr (rs' ! i)"
    using colorMapTricolore_elements [of P center breaks hue chroma lightness contrast spread]
    by blast
  obtain ss where ss: "colorMapTricolore [P ! i] center breaks hue chroma lightness contrast
        spread = Inr ss" "length ss = length [P ! i]"
    "\<forall>j<length [P ! i].
       tricolore_result hue chroma lightness contrast ([P ! i] ! j) (close_point ([P ! i] ! j))
         (centre_and_scale center spread (discretize_point breaks (close_point ([P ! i] ! j))))
       = Inr (ss ! j)"
    using colorMapTricolore_elements [of "[P ! i]" center breaks hue chroma lightness contrast
        spread] by blast
  have "rs' = rs" using rs'(1) assms(1) by simp
  then have "Inr (ss ! 0) = (Inr (rs ! i) :: error + TricoloreResult)"
    using ss(3) rs'(2) assms(2) by simp
  then have "ss ! 0 = rs ! i" by simp
  moreover have "ss = [ss ! 0]" using ss(2) by (cases ss) simp_all
  ultimately show ?thesis using ss(1) by simp
qed

section \<open>Invalid elements\<close>

lemma NaN_absorb [simp]:
  "x + NaN = NaN" "x * NaN = NaN" "x / NaN = NaN" "NaN - x = NaN" "x - NaN = NaN"
  "- NaN = NaN"
  by (cases x; simp add: minus_jsnum_def)+

lemma hclToHex_NaN: "hclToHex NaN NaN NaN = ''#NaNNaNNaN''"
  by (simp add: hclToHex_def Let_def lab_f_def gamma_def toHex_def to8bit_def clamp_def
      min2_def max2_def minus_jsnum_def)

lemma tricolore_color_NaN:
  "tricolore_color (Fin hu) (Fin ch) li co (NaN, NaN, NaN) = (NaN, NaN, NaN, ''#NaNNaNNaN'')"
  by (simp add: tricolore_color_def Let_def hclToHex_NaN)

lemma colorMapSextant_single:
  assumes "length values = 6" and "colorMapSextant P center values = Inr rs" and "i < length P"
  shows "colorMapSextant [P ! i] center values = Inr [rs ! i]"
proof -
  have "rs = map (\<lambda>i. sextant_result values (P ! i) (close P ! i)
                          (sextant_of center (close P ! i))) [0..<length P]"
    using assms(1,2) by (simp add: colorMapSextant_ok)
  then have "rs ! i = sextant_result values (P ! i) (close_point (P ! i))
      (sextant_of center (close_point (P ! i)))"
    using assms(3) by (simp add: close_nth)
  then show ?thesis
    using assms(1) by (simp add: colorMapSextant_ok close_def)
qed

lemma sextant_result_invalid:
  "s_sextant (sextant_result values Pi None sx) = None"
  "s_rgb (sextant_result values Pi None sx) = None"
  by (simp_all add: sextant_result_def)

lemma stages_keep_sentinel:
  assumes "i < length Q" and "Q ! i = None"
  shows "ternaryNearest Q C ! i = None" and "perturbe Q c ! i = None"
    and "powerScale Q s ! i = None" and "ternarySurroundingSextant Q c ! i = None"
  using assms
  by (simp_all add: ternaryNearest_def perturbe_def powerScale_def ternarySurroundingSextant_def)

text \<open>
  Claim C1, as the code has it. An element is invalid when it fails \<open>isValidTernary\<close>:
  it does not have exactly three components, or a component is not a number or is
  \<open>NaN\<close>. For an invalid element \<open>close\<close> gives the sentinel; \<open>ternaryNearest\<close>,
  \<open>perturbe\<close>, \<open>powerScale\<close> and \<open>ternarySurroundingSextant\<close> keep a sentinel;
  \<open>colorMapTricolore\<close> returns (it never throws) with the four colour fields of the
  element null, and so does \<open>colorMapSextant\<close> when the palette has six entries. The
  result of each element is the result of mapping that element alone, so no element
  affects another.
\<close>

theorem invalid_elements_propagate:
  "(\<forall>i<length P. \<not> isValidTernary (P ! i) \<longrightarrow> close P ! i = None) \<and>
   (\<forall>i<length Q. Q ! i = None \<longrightarrow>
      ternaryNearest Q C ! i = None \<and> perturbe Q c ! i = None \<and>
      powerScale Q s ! i = None \<and> ternarySurroundingSextant Q c ! i = None) \<and>
   (\<exists>rs. colorMapTricolore P center breaks hue chroma lightness contrast spread = Inr rs \<and>
      length rs = length P \<and>
      (\<forall>i<length P. \<not> isValidTernary (P ! i) \<longrightarrow>
         color_fields (rs ! i) = (None, None, None, None)) \<and>
      (\<forall>i<length P.
         colorMapTricolore [P ! i] center breaks hue chroma lightness contrast spread
           = Inr [rs ! i])) \<and>
   (length values = 6 \<longrightarrow>
      (\<exists>rs. colorMapSextant P center values = Inr rs \<and> length rs = length P \<and>
         (\<forall>i<length P. \<not> isValidTernary (P ! i) \<longrightarrow>
            s_sextant (rs ! i) = None \<and> s_rgb (rs ! i) = None) \<and>
         (\<forall>i<length P. colorMapSextant [P ! i] center values = Inr [rs ! i])))"
proof (intro conjI)
  show "\<forall>i<length P. \<not> isValidTernary (P ! i) \<longrightarrow> close P ! i = None"
    by (simp add: close_nth close_point_None_iff)
  show "\<forall>i<length Q. Q ! i = None \<longrightarrow>
      ternaryNearest Q C ! i = None \<and> perturbe Q c ! i = None \<and>
      powerScale Q s ! i = None \<and> ternarySurroundingSextant Q c ! i = None"
    using stages_keep_sentinel by blast
  show "\<exists>rs. colorMapTricolore P center breaks hue chroma lightness contrast spread = Inr rs \<and>
      length rs = length P \<and>
      (\<forall>i<length P. \<not> isValidTernary (P ! i) \<longrightarrow>
         color_fields (rs ! i) = (None, None, None, None)) \<and>
      (\<forall>i<length P.
         colorMapTricolore [P ! i] center breaks hue chroma lightness contrast spread
           = Inr [rs ! i])"
  proof -
    obtain rs where rs:
      "colorMapTricolore P center breaks hue chroma lightness contrast spread = Inr rs"
      "length rs = length P"
      "\<forall>i<length P.
         tricolore_result hue chroma lightness contrast (P ! i) (close_point (P ! i))
           (centre_and_scale center spread (discretize_point breaks (close_point (P ! i))))
         = Inr (rs ! i)"
      using colorMapTricolore_elements [of P center breaks hue chroma lightness contrast spread]
      by blast
    have "color_fields (rs ! i) = (None, None, None, None)"
      if "i < length P" and "\<not> isValidTernary (P ! i)" for i
    proof -
      have "close_point (P ! i) = None" using that(2) by (simp add: close_point_None_iff)
      then have "tricolore_result hue chroma lightness contrast (P ! i) None None = Inr (rs ! i)"
        using rs(3) that(1) by auto
      then show ?thesis
        using tricolore_result_colors point_colors_None_iff by metis
    qed
    moreover have "colorMapTricolore [P ! i] center breaks hue chroma lightness contrast spread
        = Inr [rs ! i]" if "i < length P" for i
      using rs(1) that by (rule colorMapTricolore_single)
    ultimately show ?thesis using rs(1,2) by blast
  qed
  show "length values = 6 \<longrightarrow>
      (\<exists>rs. colorMapSextant P center values = Inr rs \<and> length rs = length P \<and>
         (\<forall>i<length P. \<not> isValidTernary (P ! i) \<longrightarrow>
            s_sextant (rs ! i) = None \<and> s_rgb (rs ! i) = None) \<and>
         (\<forall>i<length P. colorMapSextant [P ! i] center values = Inr [rs ! i]))"
  proof
    assume len: "length values = 6"
    let ?rs = "map (\<lambda>i. sextant_result values (P ! i) (close P ! i)
                          (sextant_of center (close P ! i))) [0..<length P]"
    have eq: "colorMapSextant P center values = Inr ?rs"
      using len by (rule colorMapSextant_ok)
    have "s_sextant (?rs ! i) = None \<and> s_rgb (?rs ! i) = None"
      if "i < length P" and "\<not> isValidTernary (P ! i)" for i
    proof -
      have "close P ! i = None" using that by (simp add: close_nth close_point_None_iff)
      then show ?thesis using that(1) by (simp add: sextant_result_invalid)
    qed
    moreover have "colorMapSextant [P ! i] center values = Inr [?rs ! i]"
      if "i < length P" for i
      using len eq that by (rule colorMapSextant_single)
    ultimately show "\<exists>rs. colorMapSextant P center values = Inr rs \<and> length rs = length P \<and>
         (\<forall>i<length P. \<not> isValidTernary (P ! i) \<longrightarrow>
            s_sextant (rs ! i) = None \<and> s_rgb (rs ! i) = None) \<and>
         (\<forall>i<length P. colorMapSextant [P ! i] center values = Inr [rs ! i])"
      using eq by (intro exI [of _ ?rs]) simp
  qed
qed

theorem invalid_elements_propagate_witness:
  "\<not> isValidTernary [Number NaN, Number (Fin 1), Number (Fin 1)] \<and>
   \<not> isValidTernary [Number (Fin 1), Number (Fin 2)] \<and>
   \<not> isValidTernary [Undefined, Number (Fin 1), Number (Fin 1)] \<and>
   close [[Number NaN, Number (Fin 1), Number (Fin 1)], [Number (Fin 1), Number (Fin 2)],
          [Undefined, Number (Fin 1), Number (Fin 1)]] ! 0 = None \<and>
   ternaryNearest [None] [(Fin 1, Fin 0, Fin 0)] ! 0 = None \<and>
   (\<exists>rs. colorMapTricolore
            [[Number NaN, Number (Fin 1), Number (Fin 1)], [Number (Fin 1), Number (Fin 2)],
             [Undefined, Number (Fin 1), Number (Fin 1)]]
            (Fin (1 / 3), Fin (1 / 3), Fin (1 / 3)) (Fin 4) (Fin 80) (Fin 140) (Fin 80)
            (Fin 0.4) (Fin 1) = Inr rs \<and>
          length rs = 3 \<and>
          color_fields (rs ! 0) = (None, None, None, None) \<and>
          color_fields (rs ! 1) = (None, None, None, None) \<and>
          color_fields (rs ! 2) = (None, None, None, None)) \<and>
   (\<exists>rs. colorMapSextant
            [[Number NaN, Number (Fin 1), Number (Fin 1)], [Number (Fin 1), Number (Fin 2)],
             [Undefined, Number (Fin 1), Number (Fin 1)]]
            (Fin (1 / 3), Fin (1 / 3), Fin (1 / 3))
            [''#FFFF00'', ''#B3DCC3'', ''#01A0C6'', ''#B8B3D8'', ''#F11D8C'', ''#FFB3B3'']
            = Inr rs \<and>
          s_rgb (rs ! 0) = None \<and> s_rgb (rs ! 1) = None \<and> s_rgb (rs ! 2) = None)"
proof -
  have "\<not> isValidTernary [Number NaN, Number (Fin 1), Number (Fin 1)]"
    "\<not> isValidTernary [Number (Fin 1), Number (Fin 2)]"
    "\<not> isValidTernary [Undefined, Number (Fin 1), Number (Fin 1)]"
    by (simp_all add: isValidTernary_def)
  then show ?thesis
    using invalid_elements_propagate
    [of "[[Number NaN, Number (Fin 1), Number (Fin 1)], [Number (Fin 1), Number (Fin 2)],
          [Undefined, Number (Fin 1), Number (Fin 1)]]"
        "[None]" "[(Fin 1, Fin 0, Fin 0)]" "(Fin 1, Fin 1, Fin 1)" "Fin 1"
        "(Fin (1 / 3), Fin (1 / 3), Fin (1 / 3))" "Fin 4" "Fin 80" "Fin 140" "Fin 80"
        "Fin 0.4" "Fin 1"
        "[''#FFFF00'', ''#B3DCC3'', ''#01A0C6'', ''#B8B3D8'', ''#F11D8C'', ''#FFB3B3'']"]
    by (simp add: All_less_Suc eval_nat_numeral) blast
qed

text \<open>
  An infinite component passes the validity test: the element is not mapped to the
  sentinel, and with a continuous scale its colour fields are \<open>NaN\<close> and a colour
  string, not null.
\<close>

theorem infinite_component_counterexample:
  "\<not> isFinite PInf \<and>
   isValidTernary [Number PInf, Number (Fin 1), Number (Fin 1)] \<and>
   close [[Number PInf, Number (Fin 1), Number (Fin 1)]] = [Some (NaN, Fin 0, Fin 0)] \<and>
   map_sum id (map color_fields)
     (colorMapTricolore [[Number PInf, Number (Fin 1), Number (Fin 1)]]
        (Fin (1 / 3), Fin (1 / 3), Fin (1 / 3)) PInf (Fin 80) (Fin 140) (Fin 80) (Fin 0.4) (Fin 1))
     = Inr [(Some NaN, Some NaN, Some NaN, Some ''#NaNNaNNaN'')]"
  by (simp add: colorMapTricolore_def tricolore_scaled_def close_def close_point_def isValidTernary_def
     Let_def perturbe_def perturbe_point_def powerScale_def powerScale_point_def
     tricolore_result_def tricolore_color_NaN color_fields_def)

section \<open>The components reported in a result\<close>

lemma sextant_result_components:
  "(s_p1 (sextant_result values Pi p sx), s_p2 (sextant_result values Pi p sx),
    s_p3 (sextant_result values Pi p sx)) =
     (case p of
        None \<Rightarrow> (component Pi 0, component Pi 1, component Pi 2)
      | Some (p0, p1, p2) \<Rightarrow> (Number p0, Number p1, Number p2))"
  by (simp add: sextant_result_def Let_def split: option.splits prod.splits)

text \<open>
  Claim C9, as the code has it. \<open>colorMapTricolore\<close> reports the components of the
  closed composition (\<open>P_notrans\<close>, each component divided by the sum of the three)
  whenever the colour fields of the element are present, and the components as supplied
  whenever the colour fields are null; with a continuous scale the colour fields are
  present exactly for the elements that pass \<open>isValidTernary\<close>. \<open>colorMapSextant\<close>
  reports the closed components of a valid element and the supplied components of an
  invalid one.
\<close>

theorem reported_components:
  "(\<exists>rs. colorMapTricolore P center breaks hue chroma lightness contrast spread = Inr rs \<and>
      length rs = length P \<and>
      (\<forall>i<length P.
         (t_rgb (rs ! i) \<noteq> None \<longrightarrow>
            (\<exists>p0 p1 p2. close P ! i = Some (p0, p1, p2) \<and>
               (t_p1 (rs ! i), t_p2 (rs ! i), t_p3 (rs ! i)) = (Number p0, Number p1, Number p2))) \<and>
         (t_rgb (rs ! i) = None \<longrightarrow>
            (t_p1 (rs ! i), t_p2 (rs ! i), t_p3 (rs ! i))
              = (component (P ! i) 0, component (P ! i) 1, component (P ! i) 2)) \<and>
         (\<not> (isFinite breaks \<and> breaks < Fin 100) \<longrightarrow>
            (t_rgb (rs ! i) \<noteq> None) = isValidTernary (P ! i)))) \<and>
   (length values = 6 \<longrightarrow>
      (\<exists>rs. colorMapSextant P center values = Inr rs \<and> length rs = length P \<and>
         (\<forall>i<length P.
            (s_p1 (rs ! i), s_p2 (rs ! i), s_p3 (rs ! i)) =
              (case close P ! i of
                 None \<Rightarrow> (component (P ! i) 0, component (P ! i) 1, component (P ! i) 2)
               | Some (p0, p1, p2) \<Rightarrow> (Number p0, Number p1, Number p2))))) \<and>
   (\<forall>i<length P. \<forall>a b c.
      P ! i = [Number a, Number b, Number c] \<and> a \<noteq> NaN \<and> b \<noteq> NaN \<and> c \<noteq> NaN \<longrightarrow>
        close P ! i = Some (a / (a + b + c), b / (a + b + c), c / (a + b + c)))"
proof (intro conjI)
  show "\<exists>rs. colorMapTricolore P center breaks hue chroma lightness contrast spread = Inr rs \<and>
      length rs = length P \<and>
      (\<forall>i<length P.
         (t_rgb (rs ! i) \<noteq> None \<longrightarrow>
            (\<exists>p0 p1 p2. close P ! i = Some (p0, p1, p2) \<and>
               (t_p1 (rs ! i), t_p2 (rs ! i), t_p3 (rs ! i)) = (Number p0, Number p1, Number p2))) \<and>
         (t_rgb (rs ! i) = None \<longrightarrow>
            (t_p1 (rs ! i), t_p2 (rs ! i), t_p3 (rs ! i))
              = (component (P ! i) 0, component (P ! i) 1, component (P ! i) 2)) \<and>
         (\<not> (isFinite breaks \<and> breaks < Fin 100) \<longrightarrow>
            (t_rgb (rs ! i) \<noteq> None) = isValidTernary (P ! i)))"
  proof -
    obtain rs where rs:
      "colorMapTricolore P center breaks hue chroma lightness contrast spread = Inr rs"
      "length rs = length P"
      "\<forall>i<length P.
         tricolore_result hue chroma lightness contrast (P ! i) (close_point (P ! i))
           (centre_and_scale center spread (discretize_point breaks (close_point (P ! i))))
         = Inr (rs ! i)"
      using colorMapTricolore_elements [of P center breaks hue chroma lightness contrast spread]
      by blast
    have "(t_rgb (rs ! i) \<noteq> None \<longrightarrow>
            (\<exists>p0 p1 p2. close P ! i = Some (p0, p1, p2) \<and>
               (t_p1 (rs ! i), t_p2 (rs ! i), t_p3 (rs ! i)) = (Number p0, Number p1, Number p2))) \<and>
         (t_rgb (rs ! i) = None \<longrightarrow>
            (t_p1 (rs ! i), t_p2 (rs ! i), t_p3 (rs ! i))
              = (component (P ! i) 0, component (P ! i) 1, component (P ! i) 2)) \<and>
         (\<not> (isFinite breaks \<and> breaks < Fin 100) \<longrightarrow>
            (t_rgb (rs ! i) \<noteq> None) = isValidTernary (P ! i))"
      if i: "i < length P" for i
    proof -
      let ?cl = "close_point (P ! i)"
      let ?sc = "centre_and_scale center spread (discretize_point breaks ?cl)"
      have r: "tricolore_result hue chroma lightness contrast (P ! i) ?cl ?sc = Inr (rs ! i)"
        using rs(3) i by blast
      have rgb: "(t_rgb (rs ! i) = None) = (?sc = None)"
        using r by (rule tricolore_result_rgb_None)
      have comps: "(t_p1 (rs ! i), t_p2 (rs ! i), t_p3 (rs ! i)) =
         (case ?sc of
            None \<Rightarrow> (component (P ! i) 0, component (P ! i) 1, component (P ! i) 2)
          | Some q \<Rightarrow> (case ?cl of
                       Some (n0, n1, n2) \<Rightarrow> (Number n0, Number n1, Number n2)
                     | None \<Rightarrow> (Undefined, Undefined, Undefined)))"
        using r by (rule tricolore_result_components)
      have a: "\<exists>p0 p1 p2. close P ! i = Some (p0, p1, p2) \<and>
               (t_p1 (rs ! i), t_p2 (rs ! i), t_p3 (rs ! i)) = (Number p0, Number p1, Number p2)"
        if "t_rgb (rs ! i) \<noteq> None"
      proof -
        from that rgb obtain q where q: "?sc = Some q" by auto
        then have "?cl \<noteq> None" by (rule scaled_Some_closed)
        then obtain p0 p1 p2 where cl: "?cl = Some (p0, p1, p2)" by (cases ?cl) auto
        show ?thesis using comps q cl i by (simp add: close_nth)
      qed
      have b: "(t_p1 (rs ! i), t_p2 (rs ! i), t_p3 (rs ! i))
              = (component (P ! i) 0, component (P ! i) 1, component (P ! i) 2)"
        if "t_rgb (rs ! i) = None"
        using that rgb comps by simp
      have c: "(t_rgb (rs ! i) \<noteq> None) = isValidTernary (P ! i)"
        if nd: "\<not> (isFinite breaks \<and> breaks < Fin 100)"
      proof (cases ?cl)
        case None
        then show ?thesis using rgb by (simp add: close_point_None_iff [symmetric])
      next
        case (Some p)
        have "?sc \<noteq> None"
          using centre_and_scale_Some [of center spread p] Some
          by (auto simp: discretize_point_continuous [OF nd])
        then show ?thesis using rgb Some close_point_None_iff [of "P ! i"] by simp
      qed
      show ?thesis using a b c by blast
    qed
    then show ?thesis using rs(1,2) by blast
  qed
  show "length values = 6 \<longrightarrow>
      (\<exists>rs. colorMapSextant P center values = Inr rs \<and> length rs = length P \<and>
         (\<forall>i<length P.
            (s_p1 (rs ! i), s_p2 (rs ! i), s_p3 (rs ! i)) =
              (case close P ! i of
                 None \<Rightarrow> (component (P ! i) 0, component (P ! i) 1, component (P ! i) 2)
               | Some (p0, p1, p2) \<Rightarrow> (Number p0, Number p1, Number p2))))"
  proof
    assume len: "length values = 6"
    show "\<exists>rs. colorMapSextant P center values = Inr rs \<and> length rs = length P \<and>
         (\<forall>i<length P.
            (s_p1 (rs ! i), s_p2 (rs ! i), s_p3 (rs ! i)) =
              (case close P ! i of
                 None \<Rightarrow> (component (P ! i) 0, component (P ! i) 1, component (P ! i) 2)
               | Some (p0, p1, p2) \<Rightarrow> (Number p0, Number p1, Number p2)))"
      using colorMapSextant_ok [OF len, of P center]
      by (simp add: sextant_result_components)
  qed
  show "\<forall>i<length P. \<forall>a b c.
      P ! i = [Number a, Number b, Number c] \<and> a \<noteq> NaN \<and> b \<noteq> NaN \<and> c \<noteq> NaN \<longrightarrow>
        close P ! i = Some (a / (a + b + c), b / (a + b + c), c / (a + b + c))"
    by (simp add: close_nth close_point_numbers)
qed

theorem reported_components_witness:
  "\<exists>rs. colorMapTricolore
           [[Number (Fin 2), Number (Fin 1), Number (Fin 1)],
            [Number NaN, Number (Fin 1), Number (Fin 1)]]
           (Fin (1 / 3), Fin (1 / 3), Fin (1 / 3)) PInf (Fin 80) (Fin 140) (Fin 80)
           (Fin 0.4) (Fin 1) = Inr rs \<and>
         (t_p1 (rs ! 0), t_p2 (rs ! 0), t_p3 (rs ! 0))
           = (Number (Fin (1 / 2)), Number (Fin (1 / 4)), Number (Fin (1 / 4))) \<and>
         (t_p1 (rs ! 1), t_p2 (rs ! 1), t_p3 (rs ! 1))
           = (Number NaN, Number (Fin 1), Number (Fin 1))"
proof -
  have "isValidTernary [Number (Fin 2), Number (Fin 1), Number (Fin 1)]"
    "\<not> isValidTernary [Number NaN, Number (Fin 1), Number (Fin 1)]"
    "close [[Number (Fin 2), Number (Fin 1), Number (Fin 1)],
            [Number NaN, Number (Fin 1), Number (Fin 1)]]
       = [Some (Fin (1 / 2), Fin (1 / 4), Fin (1 / 4)), None]"
    by (simp_all add: isValidTernary_def close_def close_point_def)
  then show ?thesis
    using reported_components
      [of "[[Number (Fin 2), Number (Fin 1), Number (Fin 1)],
            [Number NaN, Number (Fin 1), Number (Fin 1)]]"
          "(Fin (1 / 3), Fin (1 / 3), Fin (1 / 3))" PInf "Fin 80" "Fin 140" "Fin 80"
          "Fin 0.4" "Fin 1"]
    by (simp add: All_less_Suc eval_nat_numeral component_def array_get_def) blast
qed

text \<open>
  The first component of the element \<open>[2, 1, 1]\<close> is reported as \<open>0.5\<close> by both
  colour maps, not as the 2 that was supplied.
\<close>

theorem reported_components_counterexample:
  "map_sum id (map t_p1)
     (colorMapTricolore [[Number (Fin 2), Number (Fin 1), Number (Fin 1)]]
        (Fin (1 / 3), Fin (1 / 3), Fin (1 / 3)) PInf (Fin 80) (Fin 140) (Fin 80) (Fin 0.4) (Fin 1))
     = Inr [Number (Fin (1 / 2))] \<and>
   map_sum id (map s_p1)
     (colorMapSextant [[Number (Fin 2), Number (Fin 1), Number (Fin 1)]]
        (Fin (1 / 3), Fin (1 / 3), Fin (1 / 3))
        [''#FFFF00'', ''#B3DCC3'', ''#01A0C6'', ''#B8B3D8'', ''#F11D8C'', ''#FFB3B3''])
     = Inr [Number (Fin (1 / 2))] \<and>
   Number (Fin (1 / 2)) \<noteq> Number (Fin 2)"
  by (simp add: colorMapTricolore_def tricolore_scaled_def colorMapSextant_def close_def
      close_point_def isValidTernary_def Let_def perturbe_def perturbe_point_def
      powerScale_def powerScale_point_def tricolore_result_def sextant_result_def
      case_prod_beta)

section \<open>The stages of the discretisation\<close>

lemma floor_sqrt_between:
  assumes "0 \<le> m" and "real_of_int (m * m) \<le> x" and "x < real_of_int ((m + 1) * (m + 1))"
  shows "\<lfloor>sqrt x\<rfloor> = m"
proof -
  have m: "0 \<le> real_of_int m" using assms(1) by simp
  have "sqrt (real_of_int (m * m)) \<le> sqrt x" using assms(2) by (rule real_sqrt_le_mono)
  moreover have "sqrt (real_of_int (m * m)) = real_of_int m"
    using m by (simp add: real_sqrt_mult)
  ultimately have lo: "real_of_int m \<le> sqrt x" by simp
  have "sqrt x < sqrt (real_of_int ((m + 1) * (m + 1)))"
    using assms(3) by (rule real_sqrt_less_mono)
  moreover have "sqrt (real_of_int ((m + 1) * (m + 1))) = real_of_int (m + 1)"
  proof -
    have "0 \<le> real_of_int m + 1" using m by simp
    then have "sqrt ((real_of_int m + 1) * (real_of_int m + 1)) = real_of_int m + 1"
      by (simp add: real_sqrt_mult)
    then show ?thesis by simp
  qed
  ultimately have hi: "sqrt x < real_of_int m + 1" by simp
  show ?thesis using lo hi by (simp add: floor_eq_iff)
qed

lemma floor_sqrt_small: "\<lfloor>sqrt 3\<rfloor> = 1" "\<lfloor>sqrt 2\<rfloor> = 1"
  using floor_sqrt_between [of 1 3] floor_sqrt_between [of 1 2] by simp_all

lemma rem_real_small: "rem_real 1 2 = 1" "rem_real 2 2 = 0" "rem_real 3 2 = 1"
  by (simp_all add: rem_real_def trunc_def)

lemma mesh_points_2:
  "mesh_points 2 =
     [(Fin (2 / 3), Fin (1 / 6), Fin (1 / 6)), (Fin (1 / 3), Fin (1 / 3), Fin (1 / 3)),
      (Fin (1 / 6), Fin (1 / 6), Fin (2 / 3)), (Fin (1 / 6), Fin (2 / 3), Fin (1 / 6))]"
  by (simp add: mesh_points_def ternaryMeshCentroids_def mesh_loop.simps centroid_at_def
      centroid_point_def Let_def floor_sqrt_small rem_real_small)

lemma ternaryNearest_nth:
  "i < length Q \<Longrightarrow> ternaryNearest Q C ! i = nearest_point C (Q ! i)"
  by (simp add: ternaryNearest_def)

lemma tricolore_scaled_discrete:
  "k < 100 \<Longrightarrow>
     tricolore_scaled P (c0, c1, c2) (Fin k) spread
       = powerScale
           (perturbe (ternaryNearest (close P) (map centroid_point (ternaryMeshCentroids k)))
              (Fin 1 / c0, Fin 1 / c1, Fin 1 / c2)) spread"
  by (simp add: tricolore_scaled_def Let_def)

lemma tricolore_scaled_continuous:
  "\<not> (isFinite breaks \<and> breaks < Fin 100) \<Longrightarrow>
     tricolore_scaled P (c0, c1, c2) breaks spread
       = powerScale (perturbe (close P) (Fin 1 / c0, Fin 1 / c1, Fin 1 / c2)) spread"
  by (cases breaks) (simp_all add: tricolore_scaled_def Let_def)

lemma isFinite_below_100: "(isFinite breaks \<and> breaks < Fin 100) = (\<exists>k. breaks = Fin k \<and> k < 100)"
  by (cases breaks) simp_all

section \<open>The mesh of centroids\<close>

text \<open>The loop of \<open>ternaryMeshCentroids\<close> visits the ids from 1 to the integer part of \<open>K\<close>.\<close>

lemma mesh_loop_eq: "mesh_loop k K i = map (centroid_at k K) [i..\<lfloor>K\<rfloor>]"
proof (induction k K i rule: mesh_loop.induct)
  case (1 k K i)
  show ?case
  proof (cases "real_of_int i \<le> K")
    case True
    then have "i \<le> \<lfloor>K\<rfloor>" by (simp add: le_floor_iff)
    then have "[i..\<lfloor>K\<rfloor>] = i # [i + 1..\<lfloor>K\<rfloor>]" by (rule upto_rec1)
    then show ?thesis using True "1.IH" by (simp add: mesh_loop.simps [of k K i])
  next
    case False
    then have "\<not> i \<le> \<lfloor>K\<rfloor>" by (simp add: le_floor_iff)
    then show ?thesis using False by (simp add: mesh_loop.simps [of k K i])
  qed
qed

lemma ternaryMeshCentroids_nat:
  "ternaryMeshCentroids (real n)
     = map (centroid_at (real_of_int (int n)) (real_of_int (int (n * n)))) [1..int (n * n)]"
proof -
  have "\<lfloor>real n * real n\<rfloor> = int (n * n)"
    by (metis floor_of_nat of_nat_mult)
  then show ?thesis by (simp add: ternaryMeshCentroids_def mesh_loop_eq)
qed

lemma rem_real_int:
  "\<exists>m::int. rem_real (real_of_int n) 2 = real_of_int m \<and> - 1 \<le> m \<and> m \<le> 1"
proof (cases "0 \<le> n")
  case True
  have "\<lfloor>real_of_int n / 2\<rfloor> = n div 2"
    using floor_divide_of_int_eq [of n 2, where ?'a = real] by simp
  then have "rem_real (real_of_int n) 2 = real_of_int (n - 2 * (n div 2))"
    using True by (simp add: rem_real_def trunc_def)
  moreover have "- 1 \<le> n - 2 * (n div 2) \<and> n - 2 * (n div 2) \<le> 1" by presburger
  ultimately show ?thesis by blast
next
  case False
  have "\<lceil>real_of_int n / 2\<rceil> = - (- n div 2)"
    using ceiling_divide_eq_div [of n 2] by simp
  moreover have "\<not> 0 \<le> real_of_int n / 2" using False by simp
  ultimately have "rem_real (real_of_int n) 2 = real_of_int (n - 2 * (- (- n div 2)))"
    by (simp add: rem_real_def trunc_def)
  moreover have "- 1 \<le> n - 2 * (- (- n div 2)) \<and> n - 2 * (- (- n div 2)) \<le> 1" by presburger
  ultimately show ?thesis by blast
qed

lemma centroid_at_shape:
  "\<exists>m g::int. - 1 \<le> m \<and> m \<le> 1 \<and>
     centroid_at (real_of_int kz) (real_of_int Kz) i =
       \<lparr>c_id = i,
        c_p1 = real_of_int (m - 3 * (g * g) - 3 * i + 3 * Kz + 1) / (6 * real_of_int kz),
        c_p2 = - real_of_int (m + 3 * g - 3 * kz + 1) / (3 * real_of_int kz),
        c_p3 = real_of_int (m + 3 * (g * g) + 6 * g + 3 * i - 3 * Kz + 1) / (6 * real_of_int kz)\<rparr>"
proof -
  define g where "g = \<lfloor>sqrt (real_of_int Kz - real_of_int i)\<rfloor>"
  obtain m where m: "rem_real (real_of_int (- Kz + i + g * (g + 2) + 1)) 2 = real_of_int m"
    "- 1 \<le> m" "m \<le> 1"
    using rem_real_int by blast
  have a1: "- real_of_int Kz + real_of_int i + real_of_int g * (real_of_int g + 2) + 1
      = real_of_int (- Kz + i + g * (g + 2) + 1)" by simp
  have a2: "- real_of_int Kz + real_of_int g * real_of_int g + real_of_int i
      + 2 * real_of_int g + 1 = real_of_int (- Kz + i + g * (g + 2) + 1)"
    by (simp add: algebra_simps)
  have "centroid_at (real_of_int kz) (real_of_int Kz) i =
       \<lparr>c_id = i,
        c_p1 = real_of_int (m - 3 * (g * g) - 3 * i + 3 * Kz + 1) / (6 * real_of_int kz),
        c_p2 = - real_of_int (m + 3 * g - 3 * kz + 1) / (3 * real_of_int kz),
        c_p3 = real_of_int (m + 3 * (g * g) + 6 * g + 3 * i - 3 * Kz + 1) / (6 * real_of_int kz)\<rparr>"
    unfolding centroid_at_def Let_def g_def [symmetric] a1 a2 m(1) by simp
  then show ?thesis using m(2,3) by blast
qed

lemma centroid_point_sum:
  assumes "kz \<noteq> 0"
  shows "sums_to_one (centroid_point (centroid_at (real_of_int kz) (real_of_int Kz) i))"
proof -
  obtain m g :: int where s: "centroid_at (real_of_int kz) (real_of_int Kz) i =
       \<lparr>c_id = i,
        c_p1 = real_of_int (m - 3 * (g * g) - 3 * i + 3 * Kz + 1) / (6 * real_of_int kz),
        c_p2 = - real_of_int (m + 3 * g - 3 * kz + 1) / (3 * real_of_int kz),
        c_p3 = real_of_int (m + 3 * (g * g) + 6 * g + 3 * i - 3 * Kz + 1) / (6 * real_of_int kz)\<rparr>"
    using centroid_at_shape by blast
  have k: "real_of_int kz \<noteq> 0" using assms by simp
  have "real_of_int (m - 3 * (g * g) - 3 * i + 3 * Kz + 1) / (6 * real_of_int kz)
      + - real_of_int (m + 3 * g - 3 * kz + 1) / (3 * real_of_int kz)
      + real_of_int (m + 3 * (g * g) + 6 * g + 3 * i - 3 * Kz + 1) / (6 * real_of_int kz) = 1"
    using k by (simp add: field_simps)
  then show ?thesis by (simp add: sums_to_one_def centroid_point_def s)
qed

lemma centroid_point_inj:
  assumes "kz \<noteq> 0"
    and "centroid_point (centroid_at (real_of_int kz) (real_of_int Kz) i)
       = centroid_point (centroid_at (real_of_int kz) (real_of_int Kz) j)"
  shows "i = j"
proof -
  obtain m g :: int where s: "- 1 \<le> m" "m \<le> 1"
    "centroid_at (real_of_int kz) (real_of_int Kz) i =
       \<lparr>c_id = i,
        c_p1 = real_of_int (m - 3 * (g * g) - 3 * i + 3 * Kz + 1) / (6 * real_of_int kz),
        c_p2 = - real_of_int (m + 3 * g - 3 * kz + 1) / (3 * real_of_int kz),
        c_p3 = real_of_int (m + 3 * (g * g) + 6 * g + 3 * i - 3 * Kz + 1) / (6 * real_of_int kz)\<rparr>"
    using centroid_at_shape by blast
  obtain m' g' :: int where s': "- 1 \<le> m'" "m' \<le> 1"
    "centroid_at (real_of_int kz) (real_of_int Kz) j =
       \<lparr>c_id = j,
        c_p1 = real_of_int (m' - 3 * (g' * g') - 3 * j + 3 * Kz + 1) / (6 * real_of_int kz),
        c_p2 = - real_of_int (m' + 3 * g' - 3 * kz + 1) / (3 * real_of_int kz),
        c_p3 = real_of_int (m' + 3 * (g' * g') + 6 * g' + 3 * j - 3 * Kz + 1) / (6 * real_of_int kz)\<rparr>"
    using centroid_at_shape by blast
  have k: "real_of_int kz \<noteq> 0" using assms(1) by simp
  have e2: "- real_of_int (m + 3 * g - 3 * kz + 1) / (3 * real_of_int kz)
      = - real_of_int (m' + 3 * g' - 3 * kz + 1) / (3 * real_of_int kz)"
    using assms(2) by (simp add: centroid_point_def s(3) s'(3))
  have e1: "real_of_int (m - 3 * (g * g) - 3 * i + 3 * Kz + 1) / (6 * real_of_int kz)
      = real_of_int (m' - 3 * (g' * g') - 3 * j + 3 * Kz + 1) / (6 * real_of_int kz)"
    using assms(2) by (simp add: centroid_point_def s(3) s'(3))
  from e2 k have "real_of_int (m + 3 * g - 3 * kz + 1) = real_of_int (m' + 3 * g' - 3 * kz + 1)"
    by (simp add: field_simps)
  then have "m + 3 * g - 3 * kz + 1 = m' + 3 * g' - 3 * kz + 1" by (simp only: of_int_eq_iff)
  then have gm: "g = g' \<and> m = m'" using s(1,2) s'(1,2) by presburger
  from e1 k have "real_of_int (m - 3 * (g * g) - 3 * i + 3 * Kz + 1)
      = real_of_int (m' - 3 * (g' * g') - 3 * j + 3 * Kz + 1)"
    by (simp add: field_simps)
  then have "m - 3 * (g * g) - 3 * i + 3 * Kz + 1 = m' - 3 * (g' * g') - 3 * j + 3 * Kz + 1"
    by (simp only: of_int_eq_iff)
  then show ?thesis using gm by simp
qed

text \<open>
  For two points of the plane \<open>p1 + p2 + p3 = 1\<close> the ternary distance is half the sum
  of the squared differences of the components: it is never negative, and zero only
  between a point and itself.
\<close>

lemma sums_to_one_finite:
  assumes "sums_to_one p"
  obtains a b c where "p = (Fin a, Fin b, Fin c)" "a + b + c = 1"
proof -
  obtain p0 p1 p2 where p: "p = (p0, p1, p2)" by (cases p) auto
  then have "p0 + p1 + p2 = Fin 1" using assms by (simp add: sums_to_one_def)
  then show ?thesis using p that by (elim sum_one_finite) auto
qed

lemma plane_quadratic:
  assumes "q1 + q2 + q3 = (0::real)"
  shows "- (q2 * q3 + q3 * q1 + q1 * q2) = (q1\<^sup>2 + q2\<^sup>2 + q3\<^sup>2) / 2"
proof -
  have e: "q3 = - q1 - q2" using assms by simp
  show ?thesis unfolding e by (simp add: power2_eq_square algebra_simps)
qed

lemma distance_on_plane:
  assumes "a1 + a2 + a3 = (1::real)" and "b1 + b2 + b3 = 1"
  shows "distance_to (Fin a1, Fin a2, Fin a3) (Fin b1, Fin b2, Fin b3)
           = Fin (((a1 - b1)\<^sup>2 + (a2 - b2)\<^sup>2 + (a3 - b3)\<^sup>2) / 2)"
proof -
  have "(a1 - b1) + (a2 - b2) + (a3 - b3) = 0" using assms by simp
  then have "- ((a2 - b2) * (a3 - b3) + (a3 - b3) * (a1 - b1) + (a1 - b1) * (a2 - b2))
      = ((a1 - b1)\<^sup>2 + (a2 - b2)\<^sup>2 + (a3 - b3)\<^sup>2) / 2"
    by (rule plane_quadratic)
  then show ?thesis by (simp add: distance_to_def Let_def)
qed

lemma distance_nonneg:
  assumes "sums_to_one p" and "sums_to_one q"
  shows "\<exists>d. distance_to p q = Fin d \<and> 0 \<le> d \<and> (d = 0 \<longrightarrow> q = p)"
proof -
  obtain a1 a2 a3 where p: "p = (Fin a1, Fin a2, Fin a3)" "a1 + a2 + a3 = 1"
    using assms(1) by (rule sums_to_one_finite)
  obtain b1 b2 b3 where q: "q = (Fin b1, Fin b2, Fin b3)" "b1 + b2 + b3 = 1"
    using assms(2) by (rule sums_to_one_finite)
  let ?d = "((a1 - b1)\<^sup>2 + (a2 - b2)\<^sup>2 + (a3 - b3)\<^sup>2) / 2"
  have "distance_to p q = Fin ?d" unfolding p(1) q(1) using p(2) q(2) by (rule distance_on_plane)
  moreover have "0 \<le> ?d" by simp
  moreover have "q = p" if "?d = 0"
  proof -
    from that have z: "(a1 - b1)\<^sup>2 + (a2 - b2)\<^sup>2 + (a3 - b3)\<^sup>2 = 0" by simp
    have n: "0 \<le> (a1 - b1)\<^sup>2" "0 \<le> (a2 - b2)\<^sup>2" "0 \<le> (a3 - b3)\<^sup>2" by simp_all
    from z n have "(a1 - b1)\<^sup>2 = 0" "(a2 - b2)\<^sup>2 = 0" "(a3 - b3)\<^sup>2 = 0" by linarith+
    then show ?thesis by (simp add: p(1) q(1))
  qed
  ultimately show ?thesis by blast
qed

lemma distance_self:
  assumes "sums_to_one p"
  shows "distance_to p p = Fin 0"
proof -
  obtain a1 a2 a3 where p: "p = (Fin a1, Fin a2, Fin a3)" "a1 + a2 + a3 = 1"
    using assms by (rule sums_to_one_finite)
  show ?thesis unfolding p(1) using distance_on_plane [OF p(2) p(2)] by simp
qed

lemma foldl_min2_zero:
  assumes "\<forall>d\<in>set ds. \<exists>r. d = Fin r \<and> 0 \<le> r"
    and "acc = PInf \<or> (\<exists>a. acc = Fin a \<and> 0 \<le> a)"
    and "acc = Fin 0 \<or> Fin 0 \<in> set ds"
  shows "foldl min2 acc ds = Fin 0"
  using assms
proof (induction ds arbitrary: acc)
  case Nil
  then show ?case by simp
next
  case (Cons d ds)
  from Cons.prems(1) obtain r where r: "d = Fin r" "0 \<le> r" by auto
  have acc': "\<exists>a. min2 acc d = Fin a \<and> 0 \<le> a"
    using Cons.prems(2) r by (auto simp: min2_def)
  have zero: "min2 acc d = Fin 0 \<or> Fin 0 \<in> set ds"
  proof (cases "Fin 0 \<in> set ds")
    case True
    then show ?thesis by simp
  next
    case False
    then have "acc = Fin 0 \<or> d = Fin 0" using Cons.prems(3) by auto
    then show ?thesis using Cons.prems(2) r by (auto simp: min2_def)
  qed
  have "foldl min2 (min2 acc d) ds = Fin 0"
    using Cons.prems(1) acc' zero by (intro Cons.IH) auto
  then show ?case by simp
qed

lemma indexOf_from_found:
  assumes "v \<noteq> NaN" and "v \<in> set ds"
  shows "\<exists>j<length ds. indexOf_from ds v i = i + int j \<and> ds ! j = v"
  using assms(2)
proof (induction ds arbitrary: i)
  case Nil
  then show ?case by simp
next
  case (Cons d ds)
  show ?case
  proof (cases "strict_eq d v")
    case True
    then have "d = v" by (simp add: strict_eq_def)
    then show ?thesis using True by (intro exI [of _ 0]) simp
  next
    case False
    then have "d \<noteq> v" using assms(1) by (auto simp: strict_eq_def)
    then have "v \<in> set ds" using Cons.prems by simp
    then obtain j where j: "j < length ds" "indexOf_from ds v (i + 1) = i + 1 + int j"
      "ds ! j = v"
      using Cons.IH [of "i + 1"] by blast
    then show ?thesis using False by (intro exI [of _ "Suc j"]) simp
  qed
qed

lemma nearest_point_self:
  assumes "\<forall>q\<in>set C. sums_to_one q" and "p \<in> set C"
  shows "nearest_point C (Some p) = Some p"
proof -
  let ?ds = "ternaryDistance p C"
  have p: "sums_to_one p" using assms by blast
  have all: "\<forall>d\<in>set ?ds. \<exists>r. d = Fin r \<and> 0 \<le> r"
  proof
    fix d assume "d \<in> set ?ds"
    then obtain q where q: "q \<in> set C" "d = distance_to p q"
      by (auto simp: ternaryDistance_def)
    then have "sums_to_one q" using assms(1) by blast
    then show "\<exists>r. d = Fin r \<and> 0 \<le> r"
      using distance_nonneg [OF p, of q] q(2) by blast
  qed
  have zero: "Fin 0 \<in> set ?ds"
    using assms(2) distance_self [OF p] by (force simp: ternaryDistance_def)
  have "Math_min ?ds = Fin 0"
    unfolding Math_min_def using all _ _
    by (rule foldl_min2_zero) (simp_all add: zero)
  moreover obtain j where j: "j < length ?ds" "indexOf_from ?ds (Fin 0) 0 = 0 + int j"
    "?ds ! j = Fin 0"
    using indexOf_from_found [of "Fin 0" ?ds 0] zero by auto
  ultimately have "nearest_point C (Some p) = array_get C (int j)"
    by (simp add: nearest_point_def Let_def indexOf_def)
  moreover have jl: "j < length C" using j(1) by (simp add: ternaryDistance_def)
  ultimately have n: "nearest_point C (Some p) = Some (C ! j)" by (simp add: array_get_def)
  have "distance_to p (C ! j) = Fin 0" using j(3) jl by (simp add: ternaryDistance_def)
  moreover have "sums_to_one (C ! j)" using assms(1) jl by simp
  ultimately have "C ! j = p" using distance_nonneg [OF p, of "C ! j"] by auto
  then show ?thesis using n by simp
qed

lemma mesh_points_nat:
  "map centroid_point (ternaryMeshCentroids (real n))
     = map (\<lambda>i. centroid_point (centroid_at (real_of_int (int n)) (real_of_int (int (n * n))) i))
         [1..int (n * n)]"
  by (simp add: ternaryMeshCentroids_nat)

text \<open>
  Claim C3. For a positive integer \<open>k\<close>, \<open>ternaryMeshCentroids\<close> returns \<open>k * k\<close>
  centroids, with the ids 1 to \<open>k * k\<close> in order; their points are pairwise distinct;
  \<open>ternaryNearest\<close> applied to the points with the points themselves as candidates
  returns every point unchanged; and every point is at the least ternary distance from
  itself among the candidates, no other candidate being as near.
\<close>

theorem mesh_centroids_complete:
  assumes "0 < k"
  shows "length (ternaryMeshCentroids (real k)) = k * k \<and>
         map c_id (ternaryMeshCentroids (real k)) = [1..int (k * k)] \<and>
         distinct (map centroid_point (ternaryMeshCentroids (real k))) \<and>
         ternaryNearest (map Some (map centroid_point (ternaryMeshCentroids (real k))))
             (map centroid_point (ternaryMeshCentroids (real k)))
           = map Some (map centroid_point (ternaryMeshCentroids (real k))) \<and>
         (\<forall>p\<in>set (map centroid_point (ternaryMeshCentroids (real k))).
            \<forall>q\<in>set (map centroid_point (ternaryMeshCentroids (real k))).
              distance_to p p \<le> distance_to p q \<and> (distance_to p q = distance_to p p \<longrightarrow> q = p))"
proof -
  let ?pts = "map centroid_point (ternaryMeshCentroids (real k))"
  let ?f = "\<lambda>i. centroid_point (centroid_at (real_of_int (int k)) (real_of_int (int (k * k))) i)"
  have kz: "int k \<noteq> 0" using assms by simp
  have pts: "?pts = map ?f [1..int (k * k)]" by (rule mesh_points_nat)
  have "nat (int (k * k)) = k * k" by (rule nat_int)
  then have len: "length (ternaryMeshCentroids (real k)) = k * k"
    by (simp add: ternaryMeshCentroids_nat del: of_nat_mult)
  have ids: "map c_id (ternaryMeshCentroids (real k)) = [1..int (k * k)]"
  proof -
    have "c_id (centroid_at a b i) = i" for a b i by (simp add: centroid_at_def Let_def)
    then show ?thesis by (simp add: ternaryMeshCentroids_nat map_idI)
  qed
  have "inj_on ?f (set [1..int (k * k)])"
    using centroid_point_inj [OF kz] by (intro inj_onI) blast
  then have dist: "distinct ?pts"
    unfolding pts by (simp add: distinct_map)
  have plane: "\<forall>q\<in>set ?pts. sums_to_one q"
  proof
    fix q assume "q \<in> set ?pts"
    then obtain i where "q = ?f i" unfolding pts set_map by blast
    then show "sums_to_one q" using centroid_point_sum [OF kz] by (simp only:)
  qed
  have "nearest_point ?pts (Some p) = Some p" if "p \<in> set ?pts" for p
    using plane that by (rule nearest_point_self)
  then have near: "ternaryNearest (map Some ?pts) ?pts = map Some ?pts"
    by (simp add: ternaryNearest_def)
  have least: "distance_to p p \<le> distance_to p q \<and> (distance_to p q = distance_to p p \<longrightarrow> q = p)"
    if "p \<in> set ?pts" and "q \<in> set ?pts" for p q
  proof -
    have p: "sums_to_one p" and q: "sums_to_one q" using plane that by blast+
    obtain d where d: "distance_to p q = Fin d" "0 \<le> d" "d = 0 \<longrightarrow> q = p"
      using distance_nonneg [OF p q] by blast
    then show ?thesis using distance_self [OF p] by simp
  qed
  show ?thesis using len ids dist near least by blast
qed

theorem mesh_centroids_complete_witness:
  "(0::nat) < 2 \<and>
   length (ternaryMeshCentroids (real (2::nat))) = 4 \<and>
   distinct (map centroid_point (ternaryMeshCentroids (real (2::nat)))) \<and>
   ternaryNearest (map Some (map centroid_point (ternaryMeshCentroids (real (2::nat)))))
       (map centroid_point (ternaryMeshCentroids (real (2::nat))))
     = map Some (map centroid_point (ternaryMeshCentroids (real (2::nat))))"
  using mesh_centroids_complete [of 2] by simp

section \<open>The nearest centroid\<close>

text \<open>
  For an integer \<open>k\<close> of at least 1 the mesh has \<open>k * k\<close> centroids, each with three
  positive components that sum to 1; for \<open>k * k\<close> below 1 it has none.
\<close>

lemma floor_sqrt_int:
  assumes "0 \<le> d"
  shows "0 \<le> \<lfloor>sqrt (real_of_int d)\<rfloor> \<and>
         \<lfloor>sqrt (real_of_int d)\<rfloor> * \<lfloor>sqrt (real_of_int d)\<rfloor> \<le> d \<and>
         d < (\<lfloor>sqrt (real_of_int d)\<rfloor> + 1) * (\<lfloor>sqrt (real_of_int d)\<rfloor> + 1)"
proof -
  define g where "g = \<lfloor>sqrt (real_of_int d)\<rfloor>"
  have d: "0 \<le> real_of_int d" using assms by simp
  have s: "0 \<le> sqrt (real_of_int d)" using d by simp
  have g0: "0 \<le> g" unfolding g_def using s by simp
  have lo: "real_of_int g \<le> sqrt (real_of_int d)" unfolding g_def by simp
  have hi: "sqrt (real_of_int d) < real_of_int g + 1" unfolding g_def by linarith
  have "real_of_int g * real_of_int g \<le> sqrt (real_of_int d) * sqrt (real_of_int d)"
    using lo g0 s by (intro mult_mono) simp_all
  then have "real_of_int (g * g) \<le> real_of_int d" using d by simp
  then have a: "g * g \<le> d" by (simp only: of_int_le_iff)
  have "sqrt (real_of_int d) * sqrt (real_of_int d) < (real_of_int g + 1) * (real_of_int g + 1)"
    using hi s by (intro mult_strict_mono') simp_all
  then have "real_of_int d < real_of_int ((g + 1) * (g + 1))" using d by simp
  then have b: "d < (g + 1) * (g + 1)" by (simp only: of_int_less_iff)
  show ?thesis using g0 a b unfolding g_def by blast
qed

lemma rem_real_nonneg:
  assumes "0 \<le> n"
  shows "\<exists>m::int. rem_real (real_of_int n) 2 = real_of_int m \<and> 0 \<le> m \<and> m \<le> 1"
proof -
  have "\<lfloor>real_of_int n / 2\<rfloor> = n div 2"
    using floor_divide_of_int_eq [of n 2, where ?'a = real] by simp
  then have "rem_real (real_of_int n) 2 = real_of_int (n - 2 * (n div 2))"
    using assms by (simp add: rem_real_def trunc_def)
  moreover have "0 \<le> n - 2 * (n div 2) \<and> n - 2 * (n div 2) \<le> 1" by presburger
  ultimately show ?thesis by blast
qed

lemma centroid_at_positive:
  assumes "1 \<le> kz" and "1 \<le> i" and "i \<le> kz * kz"
  shows "0 < c_p1 (centroid_at (real_of_int kz) (real_of_int (kz * kz)) i) \<and>
         0 < c_p2 (centroid_at (real_of_int kz) (real_of_int (kz * kz)) i) \<and>
         0 < c_p3 (centroid_at (real_of_int kz) (real_of_int (kz * kz)) i)"
proof -
  define g where "g = \<lfloor>sqrt (real_of_int (kz * kz - i))\<rfloor>"
  have d: "0 \<le> kz * kz - i" using assms(3) by simp
  have g: "0 \<le> g" "g * g \<le> kz * kz - i" "kz * kz - i < (g + 1) * (g + 1)"
    using floor_sqrt_int [OF d] unfolding g_def by blast+
  have "g * g < kz * kz" using g(2) assms(2) by linarith
  then have "g < kz" using g(1) assms(1)
    by (meson mult_mono not_le order_trans zero_le_one)
  then have gk: "g \<le> kz - 1" by simp
  have n0: "0 \<le> - (kz * kz) + i + g * (g + 2) + 1"
    using g(3) by (simp add: algebra_simps)
  obtain m where m: "rem_real (real_of_int (- (kz * kz) + i + g * (g + 2) + 1)) 2 = real_of_int m"
    "0 \<le> m" "m \<le> 1"
    using rem_real_nonneg [OF n0] by blast
  have gd: "\<lfloor>sqrt (real_of_int (kz * kz) - real_of_int i)\<rfloor> = g"
    unfolding g_def by simp
  have a1: "- real_of_int (kz * kz) + real_of_int i + real_of_int g * (real_of_int g + 2) + 1
      = real_of_int (- (kz * kz) + i + g * (g + 2) + 1)" by simp
  have a2: "- real_of_int (kz * kz) + real_of_int g * real_of_int g + real_of_int i
      + 2 * real_of_int g + 1 = real_of_int (- (kz * kz) + i + g * (g + 2) + 1)"
    by (simp add: algebra_simps)
  have shape: "centroid_at (real_of_int kz) (real_of_int (kz * kz)) i =
       \<lparr>c_id = i,
        c_p1 = real_of_int (m - 3 * (g * g) - 3 * i + 3 * (kz * kz) + 1) / (6 * real_of_int kz),
        c_p2 = - real_of_int (m + 3 * g - 3 * kz + 1) / (3 * real_of_int kz),
        c_p3 = real_of_int (m + 3 * (g * g) + 6 * g + 3 * i - 3 * (kz * kz) + 1)
                 / (6 * real_of_int kz)\<rparr>"
    unfolding centroid_at_def Let_def gd a1 a2 m(1) by simp
  have k: "0 < real_of_int kz" using assms(1) by simp
  have n1: "0 < m - 3 * (g * g) - 3 * i + 3 * (kz * kz) + 1" using m(2) g(2) by linarith
  have n2: "0 < - (m + 3 * g - 3 * kz + 1)" using m(3) gk by linarith
  have n3: "0 < m + 3 * (g * g) + 6 * g + 3 * i - 3 * (kz * kz) + 1"
    using m(2) g(3) by (simp add: algebra_simps)
  have r1: "0 < real_of_int (m - 3 * (g * g) - 3 * i + 3 * (kz * kz) + 1)"
    using n1 by (simp only: of_int_0_less_iff)
  have r2: "0 < real_of_int (- (m + 3 * g - 3 * kz + 1))"
    using n2 by (simp only: of_int_0_less_iff)
  have r3: "0 < real_of_int (m + 3 * (g * g) + 6 * g + 3 * i - 3 * (kz * kz) + 1)"
    using n3 by (simp only: of_int_0_less_iff)
  have k6: "0 < 6 * real_of_int kz" and k3: "0 < 3 * real_of_int kz" using k by simp_all
  have p1: "0 < real_of_int (m - 3 * (g * g) - 3 * i + 3 * (kz * kz) + 1) / (6 * real_of_int kz)"
    using r1 k6 by (rule divide_pos_pos)
  have "0 < real_of_int (- (m + 3 * g - 3 * kz + 1)) / (3 * real_of_int kz)"
    using r2 k3 by (rule divide_pos_pos)
  then have p2: "0 < - real_of_int (m + 3 * g - 3 * kz + 1) / (3 * real_of_int kz)"
    by (simp only: of_int_minus)
  have p3: "0 < real_of_int (m + 3 * (g * g) + 6 * g + 3 * i - 3 * (kz * kz) + 1)
                 / (6 * real_of_int kz)"
    using r3 k6 by (rule divide_pos_pos)
  show ?thesis unfolding shape using p1 p2 p3 by simp
qed

lemma mesh_point_positive:
  assumes "1 \<le> n" and "q \<in> set (map centroid_point (ternaryMeshCentroids (real n)))"
  shows "\<exists>a b c. q = (Fin a, Fin b, Fin c) \<and> 0 < a \<and> 0 < b \<and> 0 < c \<and> a + b + c = 1"
proof -
  let ?f = "\<lambda>i. centroid_point (centroid_at (real_of_int (int n)) (real_of_int (int (n * n))) i)"
  have "q \<in> ?f ` set [1..int (n * n)]"
    using assms(2) unfolding mesh_points_nat set_map by simp
  then obtain i where i: "1 \<le> i" "i \<le> int (n * n)" and q: "q = ?f i" by auto
  have k: "1 \<le> int n" using assms(1) by simp
  have kk: "int (n * n) = int n * int n" by simp
  have pos: "0 < c_p1 (centroid_at (real_of_int (int n)) (real_of_int (int n * int n)) i) \<and>
         0 < c_p2 (centroid_at (real_of_int (int n)) (real_of_int (int n * int n)) i) \<and>
         0 < c_p3 (centroid_at (real_of_int (int n)) (real_of_int (int n * int n)) i)"
    using k i(1) i(2) [unfolded kk] by (rule centroid_at_positive)
  have "int n \<noteq> 0" using k by simp
  then have "sums_to_one (centroid_point (centroid_at (real_of_int (int n))
      (real_of_int (int n * int n)) i))"
    by (rule centroid_point_sum)
  then have sum: "c_p1 (centroid_at (real_of_int (int n)) (real_of_int (int n * int n)) i)
      + c_p2 (centroid_at (real_of_int (int n)) (real_of_int (int n * int n)) i)
      + c_p3 (centroid_at (real_of_int (int n)) (real_of_int (int n * int n)) i) = 1"
    by (simp add: sums_to_one_def centroid_point_def)
  have "q = (Fin (c_p1 (centroid_at (real_of_int (int n)) (real_of_int (int n * int n)) i)),
             Fin (c_p2 (centroid_at (real_of_int (int n)) (real_of_int (int n * int n)) i)),
             Fin (c_p3 (centroid_at (real_of_int (int n)) (real_of_int (int n * int n)) i)))"
    unfolding q kk by (simp only: centroid_point_def)
  then show ?thesis using pos sum by blast
qed

lemma mesh_length:
  "length (ternaryMeshCentroids (real n)) = n * n"
proof -
  have "nat (int (n * n)) = n * n" by (rule nat_int)
  then show ?thesis by (simp add: ternaryMeshCentroids_nat del: of_nat_mult)
qed

lemma mesh_empty:
  assumes "k * k < 1"
  shows "ternaryMeshCentroids k = []"
proof -
  have "\<not> real_of_int 1 \<le> k * k" using assms by simp
  then show ?thesis by (simp add: ternaryMeshCentroids_def mesh_loop.simps [of k "k * k" 1])
qed

lemma isFinite_iff: "isFinite d \<longleftrightarrow> (\<exists>r. d = Fin r)"
  by (cases d) simp_all

lemma foldl_min2_finite:
  assumes "\<forall>d\<in>set ds. isFinite d"
  shows "\<exists>m. foldl min2 (Fin a) ds = Fin m \<and> (m = a \<or> Fin m \<in> set ds) \<and> m \<le> a \<and>
           (\<forall>r. Fin r \<in> set ds \<longrightarrow> m \<le> r)"
  using assms
proof (induction ds arbitrary: a)
  case Nil
  then show ?case by simp
next
  case (Cons d ds)
  from Cons.prems obtain r where r: "d = Fin r" by (auto simp: isFinite_iff)
  have step: "min2 (Fin a) d = Fin (min a r)" by (auto simp: r min2_def)
  obtain m where m: "foldl min2 (Fin (min a r)) ds = Fin m" "m = min a r \<or> Fin m \<in> set ds"
    "m \<le> min a r" "\<forall>r'. Fin r' \<in> set ds \<longrightarrow> m \<le> r'"
    using Cons.IH [of "min a r"] Cons.prems by auto
  have "foldl min2 (Fin a) (d # ds) = Fin m" using step m(1) by simp
  moreover have "m = a \<or> Fin m \<in> set (d # ds)" using m(2) r by (auto simp: min_def split: if_splits)
  moreover have "m \<le> a" using m(3) by simp
  moreover have "\<forall>r'. Fin r' \<in> set (d # ds) \<longrightarrow> m \<le> r'" using m(3,4) r by auto
  ultimately show ?case by blast
qed

lemma Math_min_finite:
  assumes "ds \<noteq> []" and "\<forall>d\<in>set ds. isFinite d"
  shows "\<exists>m. Math_min ds = Fin m \<and> Fin m \<in> set ds \<and> (\<forall>r. Fin r \<in> set ds \<longrightarrow> m \<le> r)"
proof -
  obtain d ds' where ds: "ds = d # ds'" using assms(1) by (cases ds) auto
  obtain r where r: "d = Fin r" using assms(2) ds by (auto simp: isFinite_iff)
  have fin: "\<forall>d\<in>set ds'. isFinite d" using assms(2) ds by simp
  obtain m where m: "foldl min2 (Fin r) ds' = Fin m" "m = r \<or> Fin m \<in> set ds'" "m \<le> r"
    "\<forall>r'. Fin r' \<in> set ds' \<longrightarrow> m \<le> r'"
    using foldl_min2_finite [OF fin, of r] by blast
  have "min2 PInf (Fin r) = Fin r" by (simp add: min2_def)
  then have "Math_min ds = Fin m" using m(1) by (simp add: Math_min_def ds r)
  moreover have "Fin m \<in> set ds" using m(2) by (auto simp: ds r)
  moreover have "\<forall>r'. Fin r' \<in> set ds \<longrightarrow> m \<le> r'" using m(3,4) by (auto simp: ds r)
  ultimately show ?thesis by blast
qed

lemma nearest_point_found:
  assumes "C \<noteq> []" and "\<forall>q\<in>set C. isFinite (distance_to p q)"
  shows "\<exists>q\<in>set C. nearest_point C (Some p) = Some q \<and>
           (\<forall>q'\<in>set C. distance_to p q \<le> distance_to p q')"
proof -
  let ?ds = "ternaryDistance p C"
  have ne: "?ds \<noteq> []" using assms(1) by (simp add: ternaryDistance_def)
  have fin: "\<forall>d\<in>set ?ds. isFinite d" using assms(2) by (auto simp: ternaryDistance_def)
  obtain m where m: "Math_min ?ds = Fin m" "Fin m \<in> set ?ds"
    "\<forall>r. Fin r \<in> set ?ds \<longrightarrow> m \<le> r"
    using Math_min_finite [OF ne fin] by blast
  obtain j where j: "j < length ?ds" "indexOf_from ?ds (Fin m) 0 = 0 + int j" "?ds ! j = Fin m"
    using indexOf_from_found [of "Fin m" ?ds 0] m(2) by auto
  have jl: "j < length C" using j(1) by (simp add: ternaryDistance_def)
  have "nearest_point C (Some p) = array_get C (int j)"
    using m(1) j(2) by (simp add: nearest_point_def Let_def indexOf_def)
  then have n: "nearest_point C (Some p) = Some (C ! j)" using jl by (simp add: array_get_def)
  have dj: "distance_to p (C ! j) = Fin m" using j(3) jl by (simp add: ternaryDistance_def)
  have "distance_to p (C ! j) \<le> distance_to p q'" if qin: "q' \<in> set C" for q'
  proof -
    obtain r where r: "distance_to p q' = Fin r" using assms(2) qin
      by (auto simp: isFinite_iff)
    then have "Fin r \<in> set ?ds" using qin by (force simp: ternaryDistance_def)
    then have "m \<le> r" using m(3) by blast
    then show ?thesis by (simp add: dj r)
  qed
  moreover have "C ! j \<in> set C" using jl by simp
  ultimately show ?thesis using n by blast
qed

lemma nearest_point_by_margin:
  assumes "\<forall>q\<in>set C. isFinite (distance_to p q)" and "q0 \<in> set C" and "0 < \<delta>"
    and "\<forall>q'\<in>set C. q' \<noteq> q0 \<longrightarrow> distance_to p q0 + Fin \<delta> \<le> distance_to p q'"
  shows "nearest_point C (Some p) = Some q0"
proof -
  have "C \<noteq> []" using assms(2) by auto
  then obtain q where q: "q \<in> set C" "nearest_point C (Some p) = Some q"
    "\<forall>q'\<in>set C. distance_to p q \<le> distance_to p q'"
    using nearest_point_found [OF _ assms(1)] by blast
  have "q = q0"
  proof (rule ccontr)
    assume "q \<noteq> q0"
    then have a: "distance_to p q0 + Fin \<delta> \<le> distance_to p q" using assms(4) q(1) by blast
    have b: "distance_to p q \<le> distance_to p q0" using q(3) assms(2) by blast
    obtain r0 where r0: "distance_to p q0 = Fin r0" using assms(1,2)
      by (auto simp: isFinite_iff)
    obtain r where r: "distance_to p q = Fin r" using assms(1) q(1)
      by (auto simp: isFinite_iff)
    show False using a b assms(3) by (simp add: r0 r)
  qed
  then show ?thesis using q(2) by simp
qed

lemma distance_finite [simp]:
  "isFinite (distance_to (Fin a, Fin b, Fin c) (Fin x, Fin y, Fin z))"
  by (simp add: distance_to_def Let_def)

text \<open>
  The closure of a bounded composition is a point of the simplex, and \<open>ternaryNearest\<close>
  finds it a centroid of a non-empty mesh: one at the least distance, which is the
  centroid nearest by the margin when there is one.
\<close>

lemma bounded_compositionE:
  assumes "bounded_composition p"
  obtains a b c where "p = [Number (Fin a), Number (Fin b), Number (Fin c)]"
    "0 \<le> a" "0 \<le> b" "0 \<le> c" "0 < a + b + c" "a + b + c \<le> sum_bound"
  using assms by (elim bounded_composition.elims) auto

lemma normalise_nonneg:
  assumes "0 \<le> r0" and "0 \<le> r1" and "0 \<le> r2" and "0 < r0 + r1 + r2"
  shows "\<exists>q0 q1 q2. (Fin r0 / (Fin r0 + Fin r1 + Fin r2), Fin r1 / (Fin r0 + Fin r1 + Fin r2),
            Fin r2 / (Fin r0 + Fin r1 + Fin r2)) = (Fin q0, Fin q1, Fin q2) \<and>
          0 \<le> q0 \<and> 0 \<le> q1 \<and> 0 \<le> q2 \<and> q0 + q1 + q2 = 1"
proof -
  let ?s = "r0 + r1 + r2"
  have s: "?s \<noteq> 0" using assms(4) by simp
  have "r0 / ?s + r1 / ?s + r2 / ?s = 1"
    using s by (simp add: add_divide_distrib [symmetric])
  moreover have "0 \<le> r0 / ?s" "0 \<le> r1 / ?s" "0 \<le> r2 / ?s" using assms by simp_all
  ultimately show ?thesis using s by simp
qed

lemma close_point_bounded:
  assumes "bounded_composition p"
  shows "\<exists>a b c. close_point p = Some (Fin a, Fin b, Fin c) \<and>
           0 \<le> a \<and> 0 \<le> b \<and> 0 \<le> c \<and> a + b + c = 1"
proof -
  obtain a b c where p: "p = [Number (Fin a), Number (Fin b), Number (Fin c)]"
    and n: "0 \<le> a" "0 \<le> b" "0 \<le> c" "0 < a + b + c"
    using assms by (rule bounded_compositionE)
  have "close_point p = Some (Fin a / (Fin a + Fin b + Fin c), Fin b / (Fin a + Fin b + Fin c),
      Fin c / (Fin a + Fin b + Fin c))"
    by (simp add: p close_point_finite)
  then show ?thesis using normalise_nonneg [OF n] by auto
qed


lemma mesh_nearest_by_margin:
  assumes "1 \<le> n"
    and "nearest_by_margin (map centroid_point (ternaryMeshCentroids (real n)))
           (Some (Fin a, Fin b, Fin c)) q"
  shows "nearest_point (map centroid_point (ternaryMeshCentroids (real n)))
           (Some (Fin a, Fin b, Fin c)) = Some q"
proof -
  let ?C = "map centroid_point (ternaryMeshCentroids (real n))"
  have fin: "\<forall>q\<in>set ?C. isFinite (distance_to (Fin a, Fin b, Fin c) q)"
  proof
    fix q assume "q \<in> set ?C"
    then obtain x y z where "q = (Fin x, Fin y, Fin z)"
      using mesh_point_positive [OF assms(1)] by blast
    then show "isFinite (distance_to (Fin a, Fin b, Fin c) q)" by simp
  qed
  have q: "q \<in> set ?C" using assms(2) by (simp add: nearest_by_margin_def)
  have m: "\<forall>q'\<in>set ?C. q' \<noteq> q \<longrightarrow>
      distance_to (Fin a, Fin b, Fin c) q + Fin (1 / 10 ^ 9)
        \<le> distance_to (Fin a, Fin b, Fin c) q'"
    using assms(2) by (auto simp: nearest_by_margin_def list_all_iff)
  show ?thesis using fin q _ m by (rule nearest_point_by_margin) simp
qed

lemma nearest_point_empty [simp]: "nearest_point [] p = None"
  by (cases p) (simp_all add: nearest_point_def ternaryDistance_def Math_min_def indexOf_def
      array_get_def Let_def)

lemma point_colors_None [simp]:
  "point_colors hue chroma lightness contrast None = (None, None, None, None)"
  by (simp add: point_colors_def)

lemma le_add_margin:
  assumes "isFinite x" and "isFinite y" and "x \<le> y"
  shows "x \<le> y + Fin (1 / 10 ^ 9)"
proof -
  obtain a b where "x = Fin a" "y = Fin b" using assms(1,2) by (auto simp: isFinite_iff)
  then show ?thesis using assms(3) by simp
qed

lemma mesh_nearest_up_to_margin:
  assumes "1 \<le> n"
  shows "\<exists>q\<in>set (map centroid_point (ternaryMeshCentroids (real n))).
           nearest_point (map centroid_point (ternaryMeshCentroids (real n)))
             (Some (Fin a, Fin b, Fin c)) = Some q \<and>
           nearest_up_to_margin (map centroid_point (ternaryMeshCentroids (real n)))
             (Some (Fin a, Fin b, Fin c)) q"
proof -
  let ?C = "map centroid_point (ternaryMeshCentroids (real n))"
  let ?p = "(Fin a, Fin b, Fin c)"
  have "length ?C = n * n" by (simp add: mesh_length)
  then have ne: "?C \<noteq> []" using assms by auto
  have fin: "\<forall>q\<in>set ?C. isFinite (distance_to ?p q)"
  proof
    fix q assume "q \<in> set ?C"
    then obtain x y z where "q = (Fin x, Fin y, Fin z)"
      using mesh_point_positive [OF assms] by blast
    then show "isFinite (distance_to ?p q)" by simp
  qed
  obtain q where q: "q \<in> set ?C" "nearest_point ?C (Some ?p) = Some q"
    and least: "\<forall>q'\<in>set ?C. distance_to ?p q \<le> distance_to ?p q'"
    using nearest_point_found [OF ne fin] by blast
  have "\<forall>q'\<in>set ?C. distance_to ?p q \<le> distance_to ?p q' + Fin (1 / 10 ^ 9)"
    using fin q(1) least by (blast intro: le_add_margin)
  then have "nearest_up_to_margin ?C (Some ?p) q"
    using q(1) by (simp add: nearest_up_to_margin_def list_all_iff)
  then show ?thesis using q by blast
qed

lemma nearest_by_margin_example:
  "nearest_by_margin (mesh_points 2) (Some (Fin (7 / 10), Fin (1 / 5), Fin (1 / 10)))
     (Fin (2 / 3), Fin (1 / 6), Fin (1 / 6))"
  "nearest_by_margin (mesh_points 2) (Some (Fin (4 / 5), Fin (1 / 10), Fin (1 / 10)))
     (Fin (2 / 3), Fin (1 / 6), Fin (1 / 6))"
  by (simp_all add: mesh_points_2 nearest_by_margin_def distance_to_def Let_def)

section \<open>Discretisation\<close>

text \<open>
  Claim C4, as the code has it. The closed points are replaced by the result of
  \<open>ternaryNearest\<close> among the centroids of \<open>ternaryMeshCentroids(breaks)\<close> exactly when
  \<open>breaks\<close> is a finite number below 100; otherwise (\<open>breaks\<close> at least 100, infinite
  or \<open>NaN\<close>) they go to centring and scaling unchanged. The colour fields of an element
  are those of its scaled composition. When \<open>breaks * breaks\<close> is below 1 the mesh is
  empty: no element is replaced by a centroid and every colour field is null. When
  \<open>breaks\<close> is an integer from 1 to 99 the mesh has \<open>breaks * breaks\<close> centroids, and
  every element with a bounded composition is replaced by a centroid of the mesh that is
  nearest up to the margin; a centroid that is nearest by the margin is the one chosen,
  and two elements with the same such centroid get the same \<open>h\<close>, \<open>c\<close>, \<open>l\<close> and
  \<open>rgb\<close>.
\<close>

theorem discretization_of_closed_points:
  "((isFinite breaks \<and> breaks < Fin 100) = (\<exists>k. breaks = Fin k \<and> k < 100)) \<and>
   (\<forall>k. breaks = Fin k \<and> k < 100 \<longrightarrow>
      tricolore_scaled P (c0, c1, c2) breaks spread
        = powerScale
            (perturbe (ternaryNearest (close P) (map centroid_point (ternaryMeshCentroids k)))
               (Fin 1 / c0, Fin 1 / c1, Fin 1 / c2)) spread) \<and>
   (\<not> (isFinite breaks \<and> breaks < Fin 100) \<longrightarrow>
      tricolore_scaled P (c0, c1, c2) breaks spread
        = powerScale (perturbe (close P) (Fin 1 / c0, Fin 1 / c1, Fin 1 / c2)) spread) \<and>
   (\<exists>rs. colorMapTricolore P (c0, c1, c2) breaks hue chroma lightness contrast spread = Inr rs \<and>
      length rs = length P \<and>
      (\<forall>i<length P.
         color_fields (rs ! i)
           = point_colors hue chroma lightness contrast
               (tricolore_scaled P (c0, c1, c2) breaks spread ! i)) \<and>
      (\<forall>k. breaks = Fin k \<and> k * k < 1 \<longrightarrow>
         ternaryMeshCentroids k = [] \<and>
         (\<forall>i<length P.
            ternaryNearest (close P) (map centroid_point (ternaryMeshCentroids k)) ! i = None \<and>
            color_fields (rs ! i) = (None, None, None, None))) \<and>
      (\<forall>n. 1 \<le> n \<and> n \<le> 99 \<and> breaks = Fin (real n) \<longrightarrow>
         length (ternaryMeshCentroids (real n)) = n * n \<and>
         (\<forall>i<length P. bounded_composition (P ! i) \<longrightarrow>
            (\<exists>q\<in>set (map centroid_point (ternaryMeshCentroids (real n))).
               ternaryNearest (close P) (map centroid_point (ternaryMeshCentroids (real n))) ! i
                 = Some q \<and>
               nearest_up_to_margin (map centroid_point (ternaryMeshCentroids (real n)))
                 (close P ! i) q)) \<and>
         (\<forall>i<length P. \<forall>q.
            bounded_composition (P ! i) \<and>
            nearest_by_margin (map centroid_point (ternaryMeshCentroids (real n))) (close P ! i) q
            \<longrightarrow>
            ternaryNearest (close P) (map centroid_point (ternaryMeshCentroids (real n))) ! i
              = Some q) \<and>
         (\<forall>i<length P. \<forall>j<length P. \<forall>q.
            bounded_composition (P ! i) \<and> bounded_composition (P ! j) \<and>
            nearest_by_margin (map centroid_point (ternaryMeshCentroids (real n))) (close P ! i) q \<and>
            nearest_by_margin (map centroid_point (ternaryMeshCentroids (real n))) (close P ! j) q
            \<longrightarrow>
            color_fields (rs ! i) = color_fields (rs ! j))))"
proof (intro conjI)
  show "(isFinite breaks \<and> breaks < Fin 100) = (\<exists>k. breaks = Fin k \<and> k < 100)"
    by (rule isFinite_below_100)
  show "\<forall>k. breaks = Fin k \<and> k < 100 \<longrightarrow>
      tricolore_scaled P (c0, c1, c2) breaks spread
        = powerScale
            (perturbe (ternaryNearest (close P) (map centroid_point (ternaryMeshCentroids k)))
               (Fin 1 / c0, Fin 1 / c1, Fin 1 / c2)) spread"
    using tricolore_scaled_discrete by blast
  show "\<not> (isFinite breaks \<and> breaks < Fin 100) \<longrightarrow>
      tricolore_scaled P (c0, c1, c2) breaks spread
        = powerScale (perturbe (close P) (Fin 1 / c0, Fin 1 / c1, Fin 1 / c2)) spread"
    using tricolore_scaled_continuous by blast
  show "\<exists>rs. colorMapTricolore P (c0, c1, c2) breaks hue chroma lightness contrast spread = Inr rs \<and>
      length rs = length P \<and>
      (\<forall>i<length P.
         color_fields (rs ! i)
           = point_colors hue chroma lightness contrast
               (tricolore_scaled P (c0, c1, c2) breaks spread ! i)) \<and>
      (\<forall>k. breaks = Fin k \<and> k * k < 1 \<longrightarrow>
         ternaryMeshCentroids k = [] \<and>
         (\<forall>i<length P.
            ternaryNearest (close P) (map centroid_point (ternaryMeshCentroids k)) ! i = None \<and>
            color_fields (rs ! i) = (None, None, None, None))) \<and>
      (\<forall>n. 1 \<le> n \<and> n \<le> 99 \<and> breaks = Fin (real n) \<longrightarrow>
         length (ternaryMeshCentroids (real n)) = n * n \<and>
         (\<forall>i<length P. bounded_composition (P ! i) \<longrightarrow>
            (\<exists>q\<in>set (map centroid_point (ternaryMeshCentroids (real n))).
               ternaryNearest (close P) (map centroid_point (ternaryMeshCentroids (real n))) ! i
                 = Some q \<and>
               nearest_up_to_margin (map centroid_point (ternaryMeshCentroids (real n)))
                 (close P ! i) q)) \<and>
         (\<forall>i<length P. \<forall>q.
            bounded_composition (P ! i) \<and>
            nearest_by_margin (map centroid_point (ternaryMeshCentroids (real n))) (close P ! i) q
            \<longrightarrow>
            ternaryNearest (close P) (map centroid_point (ternaryMeshCentroids (real n))) ! i
              = Some q) \<and>
         (\<forall>i<length P. \<forall>j<length P. \<forall>q.
            bounded_composition (P ! i) \<and> bounded_composition (P ! j) \<and>
            nearest_by_margin (map centroid_point (ternaryMeshCentroids (real n))) (close P ! i) q \<and>
            nearest_by_margin (map centroid_point (ternaryMeshCentroids (real n))) (close P ! j) q
            \<longrightarrow>
            color_fields (rs ! i) = color_fields (rs ! j)))"
  proof -
    obtain rs where rs:
      "colorMapTricolore P (c0, c1, c2) breaks hue chroma lightness contrast spread = Inr rs"
      "length rs = length P"
      "\<forall>i<length P.
         tricolore_result hue chroma lightness contrast (P ! i) (close_point (P ! i))
           (centre_and_scale (c0, c1, c2) spread (discretize_point breaks (close_point (P ! i))))
         = Inr (rs ! i)"
      using colorMapTricolore_elements [of P "(c0, c1, c2)" breaks hue chroma lightness
          contrast spread] by blast
    have col: "color_fields (rs ! i)
        = point_colors hue chroma lightness contrast
            (centre_and_scale (c0, c1, c2) spread (discretize_point breaks (close_point (P ! i))))"
      if "i < length P" for i
      using rs(3) that tricolore_result_colors by blast
    have a: "\<forall>i<length P.
         color_fields (rs ! i)
           = point_colors hue chroma lightness contrast
               (tricolore_scaled P (c0, c1, c2) breaks spread ! i)"
      using col by (simp add: tricolore_scaled_nth)
    have b: "ternaryMeshCentroids k = [] \<and>
         (\<forall>i<length P.
            ternaryNearest (close P) (map centroid_point (ternaryMeshCentroids k)) ! i = None \<and>
            color_fields (rs ! i) = (None, None, None, None))"
      if k: "breaks = Fin k \<and> k * k < 1" for k
    proof -
      have e: "ternaryMeshCentroids k = []" using k by (intro mesh_empty) simp
      have "k < 100"
      proof (rule ccontr)
        assume "\<not> k < 100"
        then have "1 \<le> k" by simp
        then have "1 * 1 \<le> k * k" by (intro mult_mono) simp_all
        then show False using k by simp
      qed
      then have d: "discretize_point breaks p = None" for p
        using k e by (simp add: discretize_point_discrete mesh_points_def)
      have "color_fields (rs ! i) = (None, None, None, None)" if "i < length P" for i
        using col [OF that] by (simp add: d)
      then show ?thesis using e by (simp add: ternaryNearest_nth)
    qed
    have c: "length (ternaryMeshCentroids (real n)) = n * n \<and>
         (\<forall>i<length P. bounded_composition (P ! i) \<longrightarrow>
            (\<exists>q\<in>set (map centroid_point (ternaryMeshCentroids (real n))).
               ternaryNearest (close P) (map centroid_point (ternaryMeshCentroids (real n))) ! i
                 = Some q \<and>
               nearest_up_to_margin (map centroid_point (ternaryMeshCentroids (real n)))
                 (close P ! i) q)) \<and>
         (\<forall>i<length P. \<forall>q.
            bounded_composition (P ! i) \<and>
            nearest_by_margin (map centroid_point (ternaryMeshCentroids (real n))) (close P ! i) q
            \<longrightarrow>
            ternaryNearest (close P) (map centroid_point (ternaryMeshCentroids (real n))) ! i
              = Some q) \<and>
         (\<forall>i<length P. \<forall>j<length P. \<forall>q.
            bounded_composition (P ! i) \<and> bounded_composition (P ! j) \<and>
            nearest_by_margin (map centroid_point (ternaryMeshCentroids (real n))) (close P ! i) q \<and>
            nearest_by_margin (map centroid_point (ternaryMeshCentroids (real n))) (close P ! j) q
            \<longrightarrow>
            color_fields (rs ! i) = color_fields (rs ! j))"
      if n: "1 \<le> n \<and> n \<le> 99 \<and> breaks = Fin (real n)" for n :: nat
    proof -
      let ?C = "map centroid_point (ternaryMeshCentroids (real n))"
      have n1: "1 \<le> n" and br: "breaks = Fin (real n)" and lt: "real n < 100" using n by auto
      have found: "\<exists>q\<in>set ?C. ternaryNearest (close P) ?C ! i = Some q \<and>
          nearest_up_to_margin ?C (close P ! i) q"
        if i: "i < length P" and bc: "bounded_composition (P ! i)" for i
      proof -
        obtain a b c where "close_point (P ! i) = Some (Fin a, Fin b, Fin c)"
          using close_point_bounded [OF bc] by blast
        then show ?thesis
          using mesh_nearest_up_to_margin [OF n1, of a b c] i
          by (simp add: ternaryNearest_nth close_nth)
      qed
      have chosen: "ternaryNearest (close P) ?C ! i = Some q"
        if i: "i < length P" and bc: "bounded_composition (P ! i)"
          and nm: "nearest_by_margin ?C (close P ! i) q" for i q
      proof -
        obtain a b c where cl: "close_point (P ! i) = Some (Fin a, Fin b, Fin c)"
          using close_point_bounded [OF bc] by blast
        have "nearest_by_margin ?C (Some (Fin a, Fin b, Fin c)) q"
          using nm i cl by (simp add: close_nth)
        then have "nearest_point ?C (Some (Fin a, Fin b, Fin c)) = Some q"
          using n1 by (intro mesh_nearest_by_margin)
        then show ?thesis using i cl by (simp add: ternaryNearest_nth close_nth)
      qed
      have same: "color_fields (rs ! i) = color_fields (rs ! j)"
        if i: "i < length P" and j: "j < length P"
          and bi: "bounded_composition (P ! i)" and bj: "bounded_composition (P ! j)"
          and ni: "nearest_by_margin ?C (close P ! i) q"
          and nj: "nearest_by_margin ?C (close P ! j) q" for i j q
      proof -
        have "ternaryNearest (close P) ?C ! i = Some q" using i bi ni by (rule chosen)
        moreover have "ternaryNearest (close P) ?C ! j = Some q" using j bj nj by (rule chosen)
        ultimately have "nearest_point (mesh_points (real n)) (close_point (P ! i))
            = nearest_point (mesh_points (real n)) (close_point (P ! j))"
          using i j by (simp add: ternaryNearest_nth close_nth mesh_points_def)
        then have "discretize_point breaks (close_point (P ! i))
            = discretize_point breaks (close_point (P ! j))"
          using br lt by (simp add: discretize_point_discrete)
        then show ?thesis using col [OF i] col [OF j] by simp
      qed
      show ?thesis using mesh_length [of n] found chosen same by blast
    qed
    show ?thesis using rs(1,2) a b c by blast
  qed
qed

theorem discretization_of_closed_points_witness:
  "bounded_composition [Number (Fin 7), Number (Fin 2), Number (Fin 1)] \<and>
   bounded_composition [Number (Fin 8), Number (Fin 1), Number (Fin 1)] \<and>
   length (ternaryMeshCentroids 2) = 4 \<and>
   nearest_by_margin (map centroid_point (ternaryMeshCentroids 2))
     (close [[Number (Fin 7), Number (Fin 2), Number (Fin 1)],
             [Number (Fin 8), Number (Fin 1), Number (Fin 1)]] ! 0)
     (Fin (2 / 3), Fin (1 / 6), Fin (1 / 6)) \<and>
   nearest_by_margin (map centroid_point (ternaryMeshCentroids 2))
     (close [[Number (Fin 7), Number (Fin 2), Number (Fin 1)],
             [Number (Fin 8), Number (Fin 1), Number (Fin 1)]] ! 1)
     (Fin (2 / 3), Fin (1 / 6), Fin (1 / 6)) \<and>
   ternaryNearest (close [[Number (Fin 7), Number (Fin 2), Number (Fin 1)],
                          [Number (Fin 8), Number (Fin 1), Number (Fin 1)]])
       (map centroid_point (ternaryMeshCentroids 2)) ! 0
     = Some (Fin (2 / 3), Fin (1 / 6), Fin (1 / 6)) \<and>
   nearest_up_to_margin (map centroid_point (ternaryMeshCentroids 2))
     (close [[Number (Fin 7), Number (Fin 2), Number (Fin 1)],
             [Number (Fin 8), Number (Fin 1), Number (Fin 1)]] ! 0)
     (Fin (2 / 3), Fin (1 / 6), Fin (1 / 6)) \<and>
   ternaryNearest (close [[Number (Fin 7), Number (Fin 2), Number (Fin 1)],
                          [Number (Fin 8), Number (Fin 1), Number (Fin 1)]])
       (map centroid_point (ternaryMeshCentroids 2)) ! 1
     = Some (Fin (2 / 3), Fin (1 / 6), Fin (1 / 6)) \<and>
   (\<exists>rs. colorMapTricolore [[Number (Fin 7), Number (Fin 2), Number (Fin 1)],
                            [Number (Fin 8), Number (Fin 1), Number (Fin 1)]]
            (Fin (1 / 3), Fin (1 / 3), Fin (1 / 3)) (Fin 2) (Fin 80) (Fin 140) (Fin 80)
            (Fin 0.4) (Fin 1) = Inr rs \<and>
          color_fields (rs ! 0) = color_fields (rs ! 1)) \<and>
   \<not> (isFinite PInf \<and> PInf < Fin 100) \<and>
   tricolore_scaled [[Number (Fin 7), Number (Fin 2), Number (Fin 1)],
                     [Number (Fin 8), Number (Fin 1), Number (Fin 1)]]
       (Fin (1 / 3), Fin (1 / 3), Fin (1 / 3)) PInf (Fin 1)
     = powerScale
         (perturbe (close [[Number (Fin 7), Number (Fin 2), Number (Fin 1)],
                           [Number (Fin 8), Number (Fin 1), Number (Fin 1)]])
            (Fin 1 / Fin (1 / 3), Fin 1 / Fin (1 / 3), Fin 1 / Fin (1 / 3))) (Fin 1) \<and>
   (0::real) * 0 < 1 \<and>
   (\<exists>rs. colorMapTricolore [[Number (Fin 7), Number (Fin 2), Number (Fin 1)],
                            [Number (Fin 8), Number (Fin 1), Number (Fin 1)]]
            (Fin (1 / 3), Fin (1 / 3), Fin (1 / 3)) (Fin 0) (Fin 80) (Fin 140) (Fin 80)
            (Fin 0.4) (Fin 1) = Inr rs \<and>
          color_fields (rs ! 0) = (None, None, None, None))"
proof -
  let ?P = "[[Number (Fin 7), Number (Fin 2), Number (Fin 1)],
             [Number (Fin 8), Number (Fin 1), Number (Fin 1)]]"
  let ?C = "map centroid_point (ternaryMeshCentroids 2)"
  let ?q = "(Fin (2 / 3), Fin (1 / 6), Fin (1 / 6))"
  have b0: "bounded_composition [Number (Fin 7), Number (Fin 2), Number (Fin 1)]"
    and b1: "bounded_composition [Number (Fin 8), Number (Fin 1), Number (Fin 1)]"
    using sum_bound_ge by simp_all
  have cl: "close ?P = [Some (Fin (7 / 10), Fin (1 / 5), Fin (1 / 10)),
                        Some (Fin (4 / 5), Fin (1 / 10), Fin (1 / 10))]"
    by (simp add: close_def close_point_def isValidTernary_def)
  have nm0: "nearest_by_margin ?C (close ?P ! 0) ?q"
    unfolding cl mesh_points_def [symmetric] by (simp add: nearest_by_margin_example)
  have nm1: "nearest_by_margin ?C (close ?P ! 1) ?q"
    unfolding cl mesh_points_def [symmetric] by (simp add: nearest_by_margin_example)
  have cont: "\<not> (isFinite PInf \<and> PInf < Fin 100)" by simp
  have r2: "real 2 = 2" by simp
  have prem: "1 \<le> (2::nat) \<and> (2::nat) \<le> 99 \<and> Fin 2 = Fin (real 2)" by simp
  note all = discretization_of_closed_points [of "Fin 2" ?P "Fin (1 / 3)" "Fin (1 / 3)"
      "Fin (1 / 3)" "Fin 1" "Fin 80" "Fin 140" "Fin 80" "Fin 0.4"]
  note ex = all [THEN conjunct2, THEN conjunct2, THEN conjunct2]
  have "\<exists>rs. colorMapTricolore ?P (Fin (1 / 3), Fin (1 / 3), Fin (1 / 3)) (Fin 2)
      (Fin 80) (Fin 140) (Fin 80) (Fin 0.4) (Fin 1) = Inr rs \<and>
      length (ternaryMeshCentroids 2) = 4 \<and>
      ternaryNearest (close ?P) ?C ! 0 = Some ?q \<and>
      nearest_up_to_margin ?C (close ?P ! 0) ?q \<and>
      ternaryNearest (close ?P) ?C ! 1 = Some ?q \<and>
      color_fields (rs ! 0) = color_fields (rs ! 1)"
  proof -
    from ex obtain rs where rs: "colorMapTricolore ?P (Fin (1 / 3), Fin (1 / 3), Fin (1 / 3))
        (Fin 2) (Fin 80) (Fin 140) (Fin 80) (Fin 0.4) (Fin 1) = Inr rs"
      and mesh: "\<forall>n. 1 \<le> n \<and> n \<le> 99 \<and> Fin 2 = Fin (real n) \<longrightarrow>
         length (ternaryMeshCentroids (real n)) = n * n \<and>
         (\<forall>i<length ?P. bounded_composition (?P ! i) \<longrightarrow>
            (\<exists>q\<in>set (map centroid_point (ternaryMeshCentroids (real n))).
               ternaryNearest (close ?P) (map centroid_point (ternaryMeshCentroids (real n))) ! i
                 = Some q \<and>
               nearest_up_to_margin (map centroid_point (ternaryMeshCentroids (real n)))
                 (close ?P ! i) q)) \<and>
         (\<forall>i<length ?P. \<forall>q.
            bounded_composition (?P ! i) \<and>
            nearest_by_margin (map centroid_point (ternaryMeshCentroids (real n))) (close ?P ! i) q
            \<longrightarrow>
            ternaryNearest (close ?P) (map centroid_point (ternaryMeshCentroids (real n))) ! i
              = Some q) \<and>
         (\<forall>i<length ?P. \<forall>j<length ?P. \<forall>q.
            bounded_composition (?P ! i) \<and> bounded_composition (?P ! j) \<and>
            nearest_by_margin (map centroid_point (ternaryMeshCentroids (real n))) (close ?P ! i) q \<and>
            nearest_by_margin (map centroid_point (ternaryMeshCentroids (real n))) (close ?P ! j) q
            \<longrightarrow>
            color_fields (rs ! i) = color_fields (rs ! j))"
      by (elim exE conjE)
    note M = mesh [rule_format, OF prem, unfolded r2]
    have len: "length (ternaryMeshCentroids 2) = 4" using M [THEN conjunct1] by simp
    have n0: "ternaryNearest (close ?P) ?C ! 0 = Some ?q"
      using M [THEN conjunct2, THEN conjunct2, THEN conjunct1, rule_format, of 0 ?q] b0 nm0
      by (simp del: bounded_composition.simps)
    have n1: "ternaryNearest (close ?P) ?C ! 1 = Some ?q"
      using M [THEN conjunct2, THEN conjunct2, THEN conjunct1, rule_format, of 1 ?q] b1 nm1
      by (simp del: bounded_composition.simps)
    have same: "color_fields (rs ! 0) = color_fields (rs ! 1)"
      using M [THEN conjunct2, THEN conjunct2, THEN conjunct2, rule_format, of 0 1 ?q]
        b0 b1 nm0 nm1
      by (simp del: bounded_composition.simps)
    have up0: "nearest_up_to_margin ?C (close ?P ! 0) ?q"
    proof -
      have "0 < length ?P" and "bounded_composition (?P ! 0)"
        using b0 by (simp_all del: bounded_composition.simps)
      then obtain q where "ternaryNearest (close ?P) ?C ! 0 = Some q"
        and "nearest_up_to_margin ?C (close ?P ! 0) q"
        using M [THEN conjunct2, THEN conjunct1, rule_format, of 0] by blast
      then show ?thesis using n0 by simp
    qed
    show ?thesis using rs len n0 up0 n1 same by (intro exI [of _ rs] conjI)
  qed
  then have ex2: "\<exists>rs. colorMapTricolore ?P (Fin (1 / 3), Fin (1 / 3), Fin (1 / 3)) (Fin 2)
      (Fin 80) (Fin 140) (Fin 80) (Fin 0.4) (Fin 1) = Inr rs \<and>
      color_fields (rs ! 0) = color_fields (rs ! 1)"
    and len: "length (ternaryMeshCentroids 2) = 4"
    and n0: "ternaryNearest (close ?P) ?C ! 0 = Some ?q"
    and up0: "nearest_up_to_margin ?C (close ?P ! 0) ?q"
    and n1: "ternaryNearest (close ?P) ?C ! 1 = Some ?q"
    by blast+
  have sc: "tricolore_scaled ?P (Fin (1 / 3), Fin (1 / 3), Fin (1 / 3)) PInf (Fin 1)
     = powerScale (perturbe (close ?P)
         (Fin 1 / Fin (1 / 3), Fin 1 / Fin (1 / 3), Fin 1 / Fin (1 / 3))) (Fin 1)"
    using discretization_of_closed_points [of PInf ?P "Fin (1 / 3)" "Fin (1 / 3)" "Fin (1 / 3)"
        "Fin 1", THEN conjunct2, THEN conjunct2, THEN conjunct1] cont by (rule mp)
  have zero: "(0::real) * 0 < 1" by simp
  have prem0: "Fin 0 = Fin (0::real) \<and> (0::real) * 0 < 1" by simp
  note ex0 = discretization_of_closed_points [of "Fin 0" ?P "Fin (1 / 3)" "Fin (1 / 3)"
      "Fin (1 / 3)" "Fin 1" "Fin 80" "Fin 140" "Fin 80" "Fin 0.4",
      THEN conjunct2, THEN conjunct2, THEN conjunct2]
  have empty: "\<exists>rs. colorMapTricolore ?P (Fin (1 / 3), Fin (1 / 3), Fin (1 / 3)) (Fin 0)
      (Fin 80) (Fin 140) (Fin 80) (Fin 0.4) (Fin 1) = Inr rs \<and>
      color_fields (rs ! 0) = (None, None, None, None)"
  proof -
    from ex0 obtain rs where rs: "colorMapTricolore ?P (Fin (1 / 3), Fin (1 / 3), Fin (1 / 3))
        (Fin 0) (Fin 80) (Fin 140) (Fin 80) (Fin 0.4) (Fin 1) = Inr rs"
      and none: "\<forall>k. Fin 0 = Fin k \<and> k * k < 1 \<longrightarrow>
         ternaryMeshCentroids k = [] \<and>
         (\<forall>i<length ?P.
            ternaryNearest (close ?P) (map centroid_point (ternaryMeshCentroids k)) ! i = None \<and>
            color_fields (rs ! i) = (None, None, None, None))"
      by (elim exE conjE)
    have "0 < length ?P" by simp
    then have "color_fields (rs ! 0) = (None, None, None, None)"
      using none [rule_format, OF prem0, THEN conjunct2, rule_format, of 0] by blast
    then show ?thesis using rs by (intro exI [of _ rs] conjI)
  qed
  show ?thesis
    by (intro conjI) (fact b0 b1 len nm0 nm1 n0 up0 n1 ex2 cont sc zero empty)+
qed

text \<open>
  With \<open>breaks = 0\<close>, a finite number below 100, the mesh has no centroid: the valid
  composition \<open>[1, 1, 1]\<close> is not replaced by a centroid, and its four colour fields are
  null.
\<close>

theorem empty_mesh_counterexample:
  "isFinite (Fin 0) \<and> Fin 0 < Fin 100 \<and>
   isValidTernary [Number (Fin 1), Number (Fin 1), Number (Fin 1)] \<and>
   close [[Number (Fin 1), Number (Fin 1), Number (Fin 1)]]
     = [Some (Fin (1 / 3), Fin (1 / 3), Fin (1 / 3))] \<and>
   ternaryMeshCentroids 0 = [] \<and>
   ternaryNearest (close [[Number (Fin 1), Number (Fin 1), Number (Fin 1)]])
     (map centroid_point (ternaryMeshCentroids 0)) = [None] \<and>
   map_sum id (map color_fields)
     (colorMapTricolore [[Number (Fin 1), Number (Fin 1), Number (Fin 1)]]
        (Fin (1 / 3), Fin (1 / 3), Fin (1 / 3)) (Fin 0) (Fin 80) (Fin 140) (Fin 80) (Fin 0.4)
        (Fin 1))
     = Inr [(None, None, None, None)]"
proof -
  have e: "ternaryMeshCentroids 0 = []" by (simp add: ternaryMeshCentroids_def mesh_loop.simps)
  have cl: "close [[Number (Fin 1), Number (Fin 1), Number (Fin 1)]]
     = [Some (Fin (1 / 3), Fin (1 / 3), Fin (1 / 3))]"
    by (simp add: close_def close_point_def isValidTernary_def)
  show ?thesis
    by (simp add: e cl isValidTernary_def ternaryNearest_def colorMapTricolore_def
        tricolore_scaled_def Let_def perturbe_def powerScale_def tricolore_result_def
        color_fields_def component_def)
qed

section \<open>Lightness without contrast\<close>












end
